theory Spec2Isabelle
  imports Complex_Main
begin

section \<open>Numbers and strings of the source language\<close>

text \<open>
  The services are TypeScript. A \<^verbatim>\<open>number\<close> is modelled as a \<^typ>\<open>real\<close>: the finite
  values with exact arithmetic. A \<^verbatim>\<open>Date\<close> is its epoch time in milliseconds, an
  \<^typ>\<open>int\<close>. A string is a \<^typ>\<open>string\<close> whose characters are read as the code units
  0 to 255, on which \<^verbatim>\<open>toLowerCase\<close>, \<^verbatim>\<open>\s\<close> and \<^verbatim>\<open>\w\<close> are as below.
\<close>

definition code_unit :: "char \<Rightarrow> nat" where
  "code_unit c = of_char c"

definition toLowerCase_char :: "char \<Rightarrow> char" where
  "toLowerCase_char c =
     (let n = code_unit c in
      if (65 \<le> n \<and> n \<le> 90) \<or> (192 \<le> n \<and> n \<le> 222 \<and> n \<noteq> 215)
      then char_of (n + 32) else c)"

definition toLowerCase :: "string \<Rightarrow> string" where
  "toLowerCase s = map toLowerCase_char s"

text \<open>The class \<^verbatim>\<open>\s\<close>: tab, line feed, vertical tab, form feed, carriage return,
  space and the no-break space.\<close>

definition is_space :: "char \<Rightarrow> bool" where
  "is_space c = (let n = code_unit c in (9 \<le> n \<and> n \<le> 13) \<or> n = 32 \<or> n = 160)"

text \<open>The class \<^verbatim>\<open>\w\<close>: ASCII letters, digits and the underscore.\<close>

definition is_word_char :: "char \<Rightarrow> bool" where
  "is_word_char c =
     (let n = code_unit c in
      (48 \<le> n \<and> n \<le> 57) \<or> (65 \<le> n \<and> n \<le> 90) \<or> n = 95 \<or> (97 \<le> n \<and> n \<le> 122))"

text \<open>
  \<^verbatim>\<open>s.split(/C+/)\<close> for a character class \<^verbatim>\<open>C\<close>: the pieces between the maximal runs
  of separator characters. A run at either end leaves an empty piece there, and the
  empty string splits into one empty piece.
\<close>

function split_runs :: "(char \<Rightarrow> bool) \<Rightarrow> string \<Rightarrow> string list" where
  "split_runs sep s =
     (let piece = takeWhile (\<lambda>c. \<not> sep c) s;
          rest = dropWhile (\<lambda>c. \<not> sep c) s
      in if rest = [] then [piece] else piece # split_runs sep (dropWhile sep rest))"
  by pat_completeness auto
termination
proof (relation "measure (\<lambda>(sep, s). length s)")
  show "wf (measure (\<lambda>(sep, s). length s))" by simp
next
  fix sep :: "char \<Rightarrow> bool" and s piece rest :: string
  assume r: "rest = dropWhile (\<lambda>c. \<not> sep c) s" and ne: "rest \<noteq> []"
  from ne obtain c cs where rc: "rest = c # cs" by (cases rest) auto
  have "length (dropWhile sep rest) \<le> length rest" by (rule length_dropWhile_le)
  moreover have "sep c" using r rc dropWhile_eq_Cons_conv [of "\<lambda>c. \<not> sep c" s c cs] by simp
  then have "dropWhile sep rest = dropWhile sep cs" using rc by simp
  moreover have "length (dropWhile sep cs) \<le> length cs" by (rule length_dropWhile_le)
  moreover have "length rest \<le> length s" using r by (simp add: length_dropWhile_le)
  ultimately have "length (dropWhile sep rest) < length s" using rc by simp
  then show "((sep, dropWhile sep rest), (sep, s)) \<in> measure (\<lambda>(sep, s). length s)" by simp
qed

declare split_runs.simps [simp del]

definition split_whitespace :: "string \<Rightarrow> string list" where
  "split_whitespace s = split_runs is_space s"

text \<open>\<^verbatim>\<open>s.includes(t)\<close>: \<^verbatim>\<open>t\<close> occurs in \<^verbatim>\<open>s\<close> as a contiguous piece.\<close>

fun starts_with :: "string \<Rightarrow> string \<Rightarrow> bool" where
  "starts_with s [] = True"
| "starts_with [] (c # t) = False"
| "starts_with (d # s) (c # t) = (d = c \<and> starts_with s t)"

fun str_includes :: "string \<Rightarrow> string \<Rightarrow> bool" where
  "str_includes [] t = (t = [])"
| "str_includes (d # s) t = (starts_with (d # s) t \<or> str_includes s t)"

section \<open>Data model\<close>

datatype SentimentScore = Positive | Negative | Neutral | Mixed

record Engagement =
  likes :: real
  shares :: real
  comments :: real
  views :: "real option"

record Metadata =
  hashtags :: "string list"
  mentions :: "string list"
  urls :: "string list"
  language :: string

record Emotions =
  joy :: real
  sadness :: real
  anger :: real
  fear :: real
  surprise :: real
  disgust :: real

record SentimentAnalysis =
  score :: real
  magnitude :: real
  label :: SentimentScore
  emotions :: Emotions
  confidence :: real

text \<open>
  A thrown value, a rejected promise and the \<^verbatim>\<open>error\<close> member of a store reply are
  values of one type.
\<close>

datatype error = TypeError | LibraryError string | StoreError string | ProxyError string

section \<open>Virality score\<close>

text \<open>\<^verbatim>\<open>calculateContentScore\<close> and \<^verbatim>\<open>calculateViralityScore\<close> of
  \<^verbatim>\<open>virality-analysis.ts\<close>; each \<^verbatim>\<open>score += ...\<close> is one binding.\<close>

definition calculateContentScore :: "Metadata \<Rightarrow> real" where
  "calculateContentScore metadata =
     (let score0 = 0;
          score1 = (if length (hashtags metadata) > 0
                    then score0 + min 0.3 (real (length (hashtags metadata)) * 0.1)
                    else score0);
          score2 = (if length (mentions metadata) > 0
                    then score1 + min 0.2 (real (length (mentions metadata)) * 0.05)
                    else score1);
          score3 = (if length (urls metadata) > 0 then score2 + 0.1 else score2);
          score4 = (if language metadata = ''en'' then score3 + 0.1 else score3)
      in min 1 score4)"

definition calculateViralityScore :: "Engagement \<Rightarrow> SentimentAnalysis \<Rightarrow> Metadata \<Rightarrow> real" where
  "calculateViralityScore engagement sentiment metadata =
     (let score0 = 0;
          totalEngagement = likes engagement + shares engagement + comments engagement;
          engagementScore = min 1 (totalEngagement / 10000);
          score1 = score0 + engagementScore * 0.4;
          shareVelocity = shares engagement / max 1 (likes engagement);
          velocityScore = min 1 (shareVelocity / 0.5);
          score2 = score1 + velocityScore * 0.25;
          sentimentScore = (if label sentiment = Positive then 0.8
                            else if label sentiment = Negative then 0.6 else 0.4);
          score3 = score2 + sentimentScore * 0.2;
          contentScore = calculateContentScore metadata;
          score4 = score3 + contentScore * 0.15
      in min 1 (max 0 score4))"

section \<open>Properties of the virality score\<close>

lemma calculateContentScore_le: "calculateContentScore metadata \<le> 0.7"
  unfolding calculateContentScore_def Let_def by (simp add: min_def)

lemma calculateContentScore_ge: "0 \<le> calculateContentScore metadata"
  unfolding calculateContentScore_def Let_def by (simp add: min_def)

lemma weighted_sum_le:
  fixes e v s c :: real
  assumes "e \<le> 1" and "v \<le> 1" and "s \<le> 0.8" and "c \<le> 0.7"
  shows "0 + e * 0.4 + v * 0.25 + s * 0.2 + c * 0.15 \<le> 0.915"
proof -
  have "e * 0.4 \<le> 0.4" using assms(1) by simp
  moreover have "v * 0.25 \<le> 0.25" using assms(2) by simp
  moreover have "s * 0.2 \<le> 0.16" using assms(3) by simp
  moreover have "c * 0.15 \<le> 0.105" using assms(4) by simp
  ultimately show ?thesis by simp
qed

lemma clamp_le:
  fixes x b :: real
  assumes "x \<le> b" and "0 \<le> b"
  shows "min 1 (max 0 x) \<le> b"
  using assms by (simp add: min_def max_def)

text \<open>
  C1. For every engagement record, sentiment and metadata, the score is the clamp to
  [0,1] of 0.4 times the engagement term, plus 0.25 times the share-velocity term, plus
  0.2 times the sentiment term (0.8 positive, 0.6 negative, 0.4 otherwise), plus 0.15
  times the content score; the content score is the sum, capped at 1, of
  min(0.3, 0.1 per hashtag) when there are hashtags, min(0.2, 0.05 per mention) when
  there are mentions, 0.1 when there is a URL and 0.1 when the language is "en".
\<close>

theorem calculateViralityScore_formula:
  "calculateViralityScore engagement sentiment metadata =
     min 1 (max 0
       (0.4 * min 1 ((likes engagement + shares engagement + comments engagement) / 10000)
        + 0.25 * min 1 ((shares engagement / max 1 (likes engagement)) / 0.5)
        + 0.2 * (case label sentiment of Positive \<Rightarrow> 0.8 | Negative \<Rightarrow> 0.6 | _ \<Rightarrow> 0.4)
        + 0.15 * min 1
            ((if hashtags metadata = [] then 0
              else min 0.3 (0.1 * real (length (hashtags metadata))))
             + (if mentions metadata = [] then 0
                else min 0.2 (0.05 * real (length (mentions metadata))))
             + (if urls metadata = [] then 0 else 0.1)
             + (if language metadata = ''en'' then 0.1 else 0))))"
proof -
  have content:
    "calculateContentScore metadata =
       min 1
         ((if hashtags metadata = [] then 0
           else min 0.3 (0.1 * real (length (hashtags metadata))))
          + (if mentions metadata = [] then 0
             else min 0.2 (0.05 * real (length (mentions metadata))))
          + (if urls metadata = [] then 0 else 0.1)
          + (if language metadata = ''en'' then 0.1 else 0))"
    unfolding calculateContentScore_def Let_def by (simp add: mult.commute)
  have sent:
    "(if label sentiment = Positive then 0.8
      else if label sentiment = Negative then 0.6 else (0.4::real)) =
     (case label sentiment of Positive \<Rightarrow> 0.8 | Negative \<Rightarrow> 0.6 | _ \<Rightarrow> 0.4)"
    by (cases "label sentiment") simp_all
  show ?thesis
    unfolding calculateViralityScore_def Let_def content [symmetric] sent [symmetric]
    by (simp add: mult.commute)
qed

text \<open>
  C2. For all inputs the score lies in [0,1]; so it does at
  likes = shares = comments = 10^9.
\<close>

theorem calculateViralityScore_bounded:
  "0 \<le> calculateViralityScore engagement sentiment metadata
   \<and> calculateViralityScore engagement sentiment metadata \<le> 1
   \<and> 0 \<le> calculateViralityScore
          \<lparr>likes = 10 ^ 9, shares = 10 ^ 9, comments = 10 ^ 9, views = None\<rparr> sentiment metadata
   \<and> calculateViralityScore
          \<lparr>likes = 10 ^ 9, shares = 10 ^ 9, comments = 10 ^ 9, views = None\<rparr> sentiment metadata
        \<le> 1"
  unfolding calculateViralityScore_def Let_def by simp

text \<open>
  C8. The content score is at most 0.7 and the sentiment term at most 0.8, so the
  score is at most 0.4 + 0.25 + 0.16 + 0.105 = 0.915 and never reaches the clamp at 1.
\<close>

theorem calculateViralityScore_le_0915:
  "calculateContentScore metadata \<le> 0.7
   \<and> calculateViralityScore engagement sentiment metadata \<le> 0.4 + 0.25 + 0.16 + 0.105
   \<and> calculateViralityScore engagement sentiment metadata \<le> 0.915
   \<and> calculateViralityScore engagement sentiment metadata < 1"
proof -
  let ?e = "min 1 ((likes engagement + shares engagement + comments engagement) / 10000) :: real"
  let ?v = "min 1 ((shares engagement / max 1 (likes engagement)) / 0.5) :: real"
  let ?s = "(if label sentiment = Positive then 0.8
             else if label sentiment = Negative then 0.6 else 0.4) :: real"
  let ?c = "calculateContentScore metadata"
  have e: "?e \<le> 1" by simp
  have v: "?v \<le> 1" by simp
  have s: "?s \<le> 0.8" by simp
  have c: "?c \<le> 0.7" by (rule calculateContentScore_le)
  have sum: "0 + ?e * 0.4 + ?v * 0.25 + ?s * 0.2 + ?c * 0.15 \<le> 0.915"
    using e v s c by (rule weighted_sum_le)
  have score: "calculateViralityScore engagement sentiment metadata
      = min 1 (max 0 (0 + ?e * 0.4 + ?v * 0.25 + ?s * 0.2 + ?c * 0.15))"
    unfolding calculateViralityScore_def Let_def by simp
  have "min 1 (max 0 (0 + ?e * 0.4 + ?v * 0.25 + ?s * 0.2 + ?c * 0.15)) \<le> 0.915"
    using sum by (rule clamp_le) simp
  then have le: "calculateViralityScore engagement sentiment metadata \<le> 0.915"
    by (simp only: score)
  have "(0.4 + 0.25 + 0.16 + 0.105 :: real) = 0.915" by simp
  then show ?thesis using c le by simp
qed

section \<open>Sentiment scorer\<close>

text \<open>
  \<^verbatim>\<open>text.match(new RegExp(`\\b${word}\\b`, 'gi'))\<close>, counted. A word boundary lies
  between two positions of which exactly one holds a \<^verbatim>\<open>\w\<close> character; the ends of the
  text count as holding none. The flag \<^verbatim>\<open>i\<close> compares characters up to case, the flag
  \<^verbatim>\<open>g\<close> resumes the search behind each match (the words are not empty).
\<close>

definition holds_word_char :: "char option \<Rightarrow> bool" where
  "holds_word_char p = (case p of None \<Rightarrow> False | Some c \<Rightarrow> is_word_char c)"

definition word_boundary :: "char option \<Rightarrow> char option \<Rightarrow> bool" where
  "word_boundary before after = (holds_word_char before \<noteq> holds_word_char after)"

definition char_at_start :: "string \<Rightarrow> char option" where
  "char_at_start s = (case s of [] \<Rightarrow> None | c # _ \<Rightarrow> Some c)"

fun starts_with_ignoring_case :: "string \<Rightarrow> string \<Rightarrow> bool" where
  "starts_with_ignoring_case s [] = True"
| "starts_with_ignoring_case [] (c # t) = False"
| "starts_with_ignoring_case (d # s) (c # t) =
     (toLowerCase_char d = toLowerCase_char c \<and> starts_with_ignoring_case s t)"

definition bounded_word_at :: "string \<Rightarrow> char option \<Rightarrow> string \<Rightarrow> bool" where
  "bounded_word_at word before s =
     (word \<noteq> []
      \<and> word_boundary before (char_at_start s)
      \<and> starts_with_ignoring_case s word
      \<and> word_boundary (Some (last (take (length word) s)))
            (char_at_start (drop (length word) s)))"

text \<open>The scan: \<open>skip\<close> counts the characters of the last match still to be passed.\<close>

fun count_bounded_word :: "string \<Rightarrow> char option \<Rightarrow> nat \<Rightarrow> string \<Rightarrow> nat" where
  "count_bounded_word word before skip [] = 0"
| "count_bounded_word word before (Suc skip) (c # s) = count_bounded_word word (Some c) skip s"
| "count_bounded_word word before 0 (c # s) =
     (if bounded_word_at word before (c # s)
      then 1 + count_bounded_word word (Some c) (length word - 1) s
      else count_bounded_word word (Some c) 0 s)"

text \<open>\<^verbatim>\<open>calculateEmotionScore\<close> and \<^verbatim>\<open>analyzeEmotions\<close>.\<close>

definition calculateEmotionScore :: "string \<Rightarrow> string list \<Rightarrow> real" where
  "calculateEmotionScore s emotionWords =
     (let score = sum_list (map (\<lambda>word. count_bounded_word word None 0 s) emotionWords)
      in min 1 (real score / 5))"

definition joyWords :: "string list" where
  "joyWords = [''happy'', ''joy'', ''excited'', ''great'', ''amazing'', ''wonderful'',
               ''love'', ''lol'', ''haha'']"

definition sadnessWords :: "string list" where
  "sadnessWords = [''sad'', ''depressed'', ''crying'', ''miss'', ''lost'', ''alone'', ''hurt'']"

definition angerWords :: "string list" where
  "angerWords = [''angry'', ''mad'', ''hate'', ''furious'', ''rage'', ''annoyed'', ''fuck'']"

definition fearWords :: "string list" where
  "fearWords = [''scared'', ''afraid'', ''terrified'', ''worried'', ''anxious'', ''panic'']"

definition surpriseWords :: "string list" where
  "surpriseWords = [''wow'', ''omg'', ''unexpected'', ''shocked'', ''surprised'', ''amazing'']"

definition disgustWords :: "string list" where
  "disgustWords = [''disgusting'', ''gross'', ''nasty'', ''awful'', ''terrible'']"

definition analyzeEmotions :: "string \<Rightarrow> Emotions" where
  "analyzeEmotions s =
     (let lowerText = toLowerCase s in
      \<lparr>joy = calculateEmotionScore lowerText joyWords,
       sadness = calculateEmotionScore lowerText sadnessWords,
       anger = calculateEmotionScore lowerText angerWords,
       fear = calculateEmotionScore lowerText fearWords,
       surprise = calculateEmotionScore lowerText surpriseWords,
       disgust = calculateEmotionScore lowerText disgustWords\<rparr>)"

text \<open>
  \<^verbatim>\<open>analyzeSentiment\<close>. The lexicon scorer \<^verbatim>\<open>sentiment.analyze\<close> is a library outside
  the repository: the parameter \<open>analyze\<close> gives the \<^verbatim>\<open>score\<close> of its result, or what it
  throws. \<open>analyzeSentiment_try\<close> is the body of the \<^verbatim>\<open>try\<close>, \<open>neutralDefault\<close> the
  value the \<^verbatim>\<open>catch\<close> returns. The result is the settled promise: \<open>Inr\<close> fulfilled,
  \<open>Inl\<close> rejected.
\<close>

definition analyzeSentiment_try :: "(string \<Rightarrow> error + real) \<Rightarrow> string \<Rightarrow> error + SentimentAnalysis" where
  "analyzeSentiment_try analyze s =
     (case analyze s of
        Inl e \<Rightarrow> Inl e
      | Inr result_score \<Rightarrow>
          (let score = max (- 1) (min 1 (result_score / 10));
               label = (if score > 0.1 then Positive
                        else if score < - 0.1 then Negative else Neutral);
               emotions = analyzeEmotions s;
               confidence = min 0.95 (max 0.5 (\<bar>score\<bar> * 0.8 + 0.2))
           in Inr \<lparr>score = score, magnitude = \<bar>result_score\<bar>, label = label,
                   emotions = emotions, confidence = confidence\<rparr>))"

definition neutralDefault :: SentimentAnalysis where
  "neutralDefault =
     \<lparr>score = 0, magnitude = 0, label = Neutral,
      emotions = \<lparr>joy = 0, sadness = 0, anger = 0, fear = 0, surprise = 0, disgust = 0\<rparr>,
      confidence = 0.5\<rparr>"

definition analyzeSentiment :: "(string \<Rightarrow> error + real) \<Rightarrow> string \<Rightarrow> error + SentimentAnalysis" where
  "analyzeSentiment analyze s =
     (case analyzeSentiment_try analyze s of
        Inl e \<Rightarrow> Inr neutralDefault
      | Inr analysis \<Rightarrow> Inr analysis)"

section \<open>Properties of the sentiment scorer\<close>

lemma calculateEmotionScore_empty: "calculateEmotionScore [] emotionWords = 0"
  unfolding calculateEmotionScore_def Let_def by (induction emotionWords) simp_all

lemma analyzeEmotions_empty:
  "analyzeEmotions [] = \<lparr>joy = 0, sadness = 0, anger = 0, fear = 0, surprise = 0, disgust = 0\<rparr>"
  unfolding analyzeEmotions_def Let_def toLowerCase_def
  by (simp add: calculateEmotionScore_empty)

lemma analyzeSentiment_fulfilled: "\<exists>analysis. analyzeSentiment analyze s = Inr analysis"
  unfolding analyzeSentiment_def by (cases "analyzeSentiment_try analyze s") simp_all

lemma min_max_between:
  fixes a b x :: real
  assumes "a \<le> b"
  shows "a \<le> min b (max a x) \<and> min b (max a x) \<le> b"
  using assms by (simp add: min_def max_def)

lemma analyzeSentiment_try_confidence:
  assumes "analyzeSentiment_try analyze s = Inr analysis"
  shows "0.5 \<le> confidence analysis \<and> confidence analysis \<le> 0.95"
proof (cases "analyze s")
  case (Inl e)
  with assms show ?thesis by (simp add: analyzeSentiment_try_def)
next
  case (Inr r)
  with assms have "confidence analysis
      = min 0.95 (max 0.5 (\<bar>max (- 1) (min 1 (r / 10))\<bar> * 0.8 + 0.2))"
    by (auto simp: analyzeSentiment_try_def Let_def)
  moreover have "(0.5::real) \<le> 0.95" by simp
  ultimately show ?thesis by (simp only: min_max_between)
qed

lemma analyzeSentiment_confidence:
  assumes "analyzeSentiment analyze s = Inr analysis"
  shows "0.5 \<le> confidence analysis \<and> confidence analysis \<le> 0.95"
proof (cases "analyzeSentiment_try analyze s")
  case (Inl e)
  with assms have "analysis = neutralDefault" by (simp add: analyzeSentiment_def)
  then show ?thesis by (simp add: neutralDefault_def)
next
  case (Inr a)
  with assms have "analysis = a" by (simp add: analyzeSentiment_def)
  with Inr show ?thesis using analyzeSentiment_try_confidence by blast
qed

lemma analyzeSentiment_catch:
  assumes "analyze s = Inl e"
  shows "analyzeSentiment analyze s = Inr neutralDefault"
  using assms by (simp add: analyzeSentiment_def analyzeSentiment_try_def)

lemma analyzeSentiment_empty:
  assumes "analyze [] = Inr 0"
  shows "analyzeSentiment analyze [] = Inr neutralDefault"
  using assms
  by (simp add: analyzeSentiment_def analyzeSentiment_try_def Let_def analyzeEmotions_empty
      neutralDefault_def)

text \<open>
  C6. \<^verbatim>\<open>analyzeSentiment\<close> never rejects: for every text and every behaviour of the
  lexicon library it is fulfilled; when the library throws, the value is the neutral
  default (score 0, magnitude 0, label neutral, the six emotions 0, confidence 0.5);
  the empty text, which the library scores 0 or fails on, gives the neutral default;
  and the confidence of every value returned lies in [0.5, 0.95].
\<close>

theorem analyzeSentiment_never_fails:
  "(\<exists>analysis. analyzeSentiment analyze s = Inr analysis
       \<and> 0.5 \<le> confidence analysis \<and> confidence analysis \<le> 0.95)
   \<and> ((\<exists>e. analyze s = Inl e) \<longrightarrow> analyzeSentiment analyze s = Inr neutralDefault)
   \<and> (analyze [] = Inr 0 \<or> (\<exists>e. analyze [] = Inl e)
        \<longrightarrow> analyzeSentiment analyze [] = Inr neutralDefault)
   \<and> score neutralDefault = 0 \<and> magnitude neutralDefault = 0
   \<and> label neutralDefault = Neutral \<and> confidence neutralDefault = 0.5
   \<and> emotions neutralDefault
       = \<lparr>joy = 0, sadness = 0, anger = 0, fear = 0, surprise = 0, disgust = 0\<rparr>"
proof -
  obtain analysis where a: "analyzeSentiment analyze s = Inr analysis"
    using analyzeSentiment_fulfilled by blast
  have 1: "\<exists>analysis. analyzeSentiment analyze s = Inr analysis
       \<and> 0.5 \<le> confidence analysis \<and> confidence analysis \<le> 0.95"
    using a analyzeSentiment_confidence [OF a] by blast
  have 2: "(\<exists>e. analyze s = Inl e) \<longrightarrow> analyzeSentiment analyze s = Inr neutralDefault"
    using analyzeSentiment_catch by blast
  have 3: "analyze [] = Inr 0 \<or> (\<exists>e. analyze [] = Inl e)
        \<longrightarrow> analyzeSentiment analyze [] = Inr neutralDefault"
    using analyzeSentiment_catch analyzeSentiment_empty by blast
  show ?thesis using 1 2 3 by (simp add: neutralDefault_def)
qed

theorem analyzeSentiment_never_fails_witness:
  "analyzeSentiment (\<lambda>t. if t = [] then Inr 0 else Inl (LibraryError ''lexicon'')) ''so happy''
     = Inr neutralDefault
   \<and> analyzeSentiment (\<lambda>t. if t = [] then Inr 0 else Inl (LibraryError ''lexicon'')) []
     = Inr neutralDefault
   \<and> confidence neutralDefault = 0.5"
  using analyzeSentiment_never_fails
    [of "\<lambda>t. if t = [] then Inr 0 else Inl (LibraryError ''lexicon'')" "''so happy''"]
  by simp

section \<open>Posts, trends and the store\<close>

datatype SocialPlatform =
  Twitter | Reddit | Instagram | Tiktok | Youtube | Linkedin | Facebook | Discord | Telegram

datatype TrendCategory =
  Technology | Politics | Entertainment | Sports | Business | Health | Education
  | Environment | Social_justice | Memes | Viral_challenges | Breaking_news

record SocialMediaPost =
  post_id :: string
  platform :: SocialPlatform
  content :: string
  author :: string
  authorId :: string
  timestamp :: int
  engagement :: Engagement
  metadata :: Metadata
  sentiment :: SentimentAnalysis
  viralityScore :: real
  createdAt :: int
  updatedAt :: int

record ViralityFactor =
  factor_type :: string
  description :: string
  impact :: real
  evidence :: "string list"

record Influencer =
  influencer_id :: string
  username :: string
  influencer_platform :: SocialPlatform
  followers :: real
  engagementRate :: real
  influence :: real
  topics :: "string list"
  recentPosts :: "SocialMediaPost list"

record TrendTimelinePoint =
  point_timestamp :: int
  point_mentions :: real
  point_engagement :: real
  point_sentiment :: SentimentScore
  keyEvents :: "string list option"

text \<open>The members \<^verbatim>\<open>metrics\<close> and \<^verbatim>\<open>sentiment\<close> of a \<^verbatim>\<open>Trend\<close>.\<close>

record TrendMetrics =
  trend_mentions :: real
  trend_engagement :: real
  reach :: real
  growthRate :: real
  velocity :: real

record TrendSentiment =
  positive :: real
  negative :: real
  neutral :: real
  overall :: SentimentScore

text \<open>The other members of a \<^verbatim>\<open>Trend\<close>, apart from its topic and hashtag.\<close>

record TrendDetails =
  trend_id :: string
  trend_platform :: SocialPlatform
  category :: TrendCategory
  relatedTopics :: "string list"
  influencers :: "Influencer list"
  timeline :: "TrendTimelinePoint list"
  viralityFactors :: "ViralityFactor list"
  trend_createdAt :: int
  trend_updatedAt :: int

record Trend =
  topic :: string
  hashtag :: "string option"
  metrics :: TrendMetrics
  trend_sentiment :: TrendSentiment
  details :: TrendDetails

text \<open>
  The store. A query is the list of the clauses that the service chains on the table; the
  awaited reply is the pair \<^verbatim>\<open>{ data, error }\<close>, or the call rejects.
\<close>

datatype store_clause =
    Or_filter string
  | In_platforms "SocialPlatform list"
  | In_categories "TrendCategory list"
  | Gte_instant string int
  | Lte_instant string int
  | Gte_number string real
  | Order_by string bool
  | Limit nat

datatype 'row store_reply =
    Reply "'row list option" "error option"
  | Rejected error

section \<open>Trend aggregator\<close>

subsection \<open>Topics of a post\<close>

text \<open>\<^verbatim>\<open>extractKeyPhrases\<close>: the phrases of two, then of three, consecutive words longer
  than three characters; the first ten.\<close>

fun two_word_phrases :: "string list \<Rightarrow> string list" where
  "two_word_phrases (a # b # ws) = (a @ '' '' @ b) # two_word_phrases (b # ws)"
| "two_word_phrases ws = []"

fun three_word_phrases :: "string list \<Rightarrow> string list" where
  "three_word_phrases (a # b # c # ws) = (a @ '' '' @ b @ '' '' @ c) # three_word_phrases (b # c # ws)"
| "three_word_phrases ws = []"

definition extractKeyPhrases :: "string \<Rightarrow> string list" where
  "extractKeyPhrases s =
     (let ws = filter (\<lambda>word. length word > 3)
                 (split_whitespace
                   (filter (\<lambda>c. is_word_char c \<or> is_space c) (toLowerCase s)));
          phrases = two_word_phrases ws @ three_word_phrases ws
      in take 10 phrases)"

text \<open>\<^verbatim>\<open>extractTopics\<close>. A \<^verbatim>\<open>Set\<close> keeps the first insertion of each element.\<close>

definition set_add :: "string list \<Rightarrow> string \<Rightarrow> string list" where
  "set_add elements x = (if x \<in> set elements then elements else elements @ [x])"

definition extractTopics :: "SocialMediaPost \<Rightarrow> string list" where
  "extractTopics post =
     (let topics0 = foldl set_add [] (map toLowerCase (hashtags (metadata post)));
          keyPhrases = extractKeyPhrases (content post)
      in foldl set_add topics0 (map toLowerCase keyPhrases))"

subsection \<open>Grouping\<close>

text \<open>
  \<^verbatim>\<open>groupPostsByTopic\<close> fills a plain object. The object is the list of its own
  properties in creation order. \<^verbatim>\<open>groups[topic]\<close> also finds the properties inherited
  from \<^verbatim>\<open>Object.prototype\<close>: for such a topic the test \<^verbatim>\<open>!groups[topic]\<close> is false and
  \<^verbatim>\<open>groups[topic].push\<close> is not a function, a \<^verbatim>\<open>TypeError\<close>.
\<close>

type_synonym topic_groups = "(string \<times> SocialMediaPost list) list"

definition object_prototype_properties :: "string list" where
  "object_prototype_properties =
     [''constructor'', ''__proto__'', ''hasOwnProperty'', ''isPrototypeOf'',
      ''propertyIsEnumerable'', ''toLocaleString'', ''toString'', ''valueOf'',
      ''__defineGetter__'', ''__defineSetter__'', ''__lookupGetter__'', ''__lookupSetter__'']"

fun push_to_group :: "topic_groups \<Rightarrow> string \<Rightarrow> SocialMediaPost \<Rightarrow> topic_groups" where
  "push_to_group [] t post = [(t, [post])]"
| "push_to_group ((k, posts) # groups) t post =
     (if k = t then (k, posts @ [post]) # groups
      else (k, posts) # push_to_group groups t post)"

fun group_by_topics :: "topic_groups \<Rightarrow> SocialMediaPost \<Rightarrow> string list \<Rightarrow> error + topic_groups" where
  "group_by_topics groups post [] = Inr groups"
| "group_by_topics groups post (t # ts) =
     (if t \<in> set object_prototype_properties then Inl TypeError
      else group_by_topics (push_to_group groups t post) post ts)"

fun group_posts :: "topic_groups \<Rightarrow> SocialMediaPost list \<Rightarrow> error + topic_groups" where
  "group_posts groups [] = Inr groups"
| "group_posts groups (post # posts) =
     (case group_by_topics groups post (extractTopics post) of
        Inl e \<Rightarrow> Inl e
      | Inr groups' \<Rightarrow> group_posts groups' posts)"

definition groupPostsByTopic :: "SocialMediaPost list \<Rightarrow> error + topic_groups" where
  "groupPostsByTopic posts = group_posts [] posts"

text \<open>
  \<^verbatim>\<open>Object.entries\<close> lists the keys that are array indices first, in ascending numeric
  order, then the other keys in creation order. An array index is the decimal numeral,
  without a leading zero, of an integer up to 4294967294.
\<close>

definition is_digit :: "char \<Rightarrow> bool" where
  "is_digit c = (48 \<le> code_unit c \<and> code_unit c \<le> 57)"

definition decimal_value :: "string \<Rightarrow> nat" where
  "decimal_value s = foldl (\<lambda>n c. 10 * n + (code_unit c - 48)) 0 s"

definition is_array_index :: "string \<Rightarrow> bool" where
  "is_array_index s =
     (s \<noteq> [] \<and> list_all is_digit s \<and> (s = ''0'' \<or> hd s \<noteq> CHR ''0'')
      \<and> length s \<le> 10 \<and> decimal_value s \<le> 4294967294)"

definition Object_entries :: "topic_groups \<Rightarrow> topic_groups" where
  "Object_entries groups =
     sort_key (\<lambda>(k, posts). decimal_value k) (filter (\<lambda>(k, posts). is_array_index k) groups)
     @ filter (\<lambda>(k, posts). \<not> is_array_index k) groups"

subsection \<open>Analysis of one group\<close>

text \<open>\<^verbatim>\<open>calculateTrendMetrics\<close>. \<^verbatim>\<open>posts[0].timestamp\<close> on an empty array is a
  \<^verbatim>\<open>TypeError\<close>.\<close>

definition calculateTrendMetrics :: "SocialMediaPost list \<Rightarrow> error + TrendMetrics" where
  "calculateTrendMetrics posts =
     (let totalMentions = real (length posts);
          totalEngagement =
            foldl (\<lambda>sum post. sum + likes (engagement post) + shares (engagement post)
                               + comments (engagement post)) 0 posts;
          totalReach =
            foldl (\<lambda>sum post. sum + (case views (engagement post) of None \<Rightarrow> 0 | Some v \<Rightarrow> v))
              0 posts
      in if posts = [] then Inl TypeError
         else
           (let timeSpan = real_of_int (timestamp (hd posts) - timestamp (last posts));
                hoursSpan = timeSpan / (1000 * 60 * 60);
                growthRate = totalMentions / max 1 hoursSpan;
                velocity = totalEngagement / max 1 hoursSpan
            in Inr \<lparr>trend_mentions = totalMentions, trend_engagement = totalEngagement,
                    reach = totalReach, growthRate = growthRate, velocity = velocity\<rparr>))"

text \<open>
  \<^verbatim>\<open>analyzeSentimentDistribution\<close>: the loop over the posts with its three counters,
  then the fractions. (On an empty group the source divides 0 by 0; the group analysed
  by \<^verbatim>\<open>identifyTrends\<close> has at least five posts.)
\<close>

fun count_labels :: "nat \<times> nat \<times> nat \<Rightarrow> SocialMediaPost list \<Rightarrow> nat \<times> nat \<times> nat" where
  "count_labels (n_positive, n_negative, n_neutral) [] = (n_positive, n_negative, n_neutral)"
| "count_labels (n_positive, n_negative, n_neutral) (post # posts) =
     (case label (sentiment post) of
        Positive \<Rightarrow> count_labels (n_positive + 1, n_negative, n_neutral) posts
      | Negative \<Rightarrow> count_labels (n_positive, n_negative + 1, n_neutral) posts
      | _ \<Rightarrow> count_labels (n_positive, n_negative, n_neutral + 1) posts)"

definition analyzeSentimentDistribution :: "SocialMediaPost list \<Rightarrow> TrendSentiment" where
  "analyzeSentimentDistribution posts =
     (case count_labels (0, 0, 0) posts of
        (n_positive, n_negative, n_neutral) \<Rightarrow>
          (let total = length posts;
               overall = (if n_positive > n_negative then Positive
                          else if n_negative > n_positive then Negative else Neutral)
           in \<lparr>positive = real n_positive / real total,
               negative = real n_negative / real total,
               neutral = real n_neutral / real total,
               overall = overall\<rparr>))"

text \<open>
  \<^verbatim>\<open>analyzeTrend\<close>. After the metrics and the distribution, the source fills the other
  members (related topics, influencers, timeline, virality factors, category, platform,
  id and dates). Their helpers sort the group array in place and append to arrays that
  the posts share between groups, so what they produce depends on the groups analysed
  before; nothing of it is read by \<^verbatim>\<open>identifyTrends\<close>. They enter as the parameter
  \<open>describe\<close>, given the whole grouping, the topic and the posts, which may also
  throw. Any throw inside the \<^verbatim>\<open>try\<close> gives \<^verbatim>\<open>null\<close>.
\<close>

type_synonym describe = "topic_groups \<Rightarrow> string \<Rightarrow> SocialMediaPost list \<Rightarrow> error + TrendDetails"

definition analyzeTrend :: "describe \<Rightarrow> topic_groups \<Rightarrow> string \<Rightarrow> SocialMediaPost list \<Rightarrow> Trend option" where
  "analyzeTrend describe groups t posts =
     (case calculateTrendMetrics posts of
        Inl e \<Rightarrow> None
      | Inr metrics' \<Rightarrow>
          (let sentiment' = analyzeSentimentDistribution posts in
           case describe groups t posts of
             Inl e \<Rightarrow> None
           | Inr details' \<Rightarrow>
               Some \<lparr>topic = t,
                     hashtag = (if starts_with t ''#'' then Some t else None),
                     metrics = metrics',
                     trend_sentiment = sentiment',
                     details = details'\<rparr>))"

definition isSignificantTrend :: "Trend \<Rightarrow> bool" where
  "isSignificantTrend trend =
     (trend_mentions (metrics trend) \<ge> 10
      \<and> velocity (metrics trend) \<ge> 100
      \<and> growthRate (metrics trend) \<ge> 2)"

subsection \<open>Identifying trends\<close>

datatype TimeWindow = Hour | Day | Week

record trend_env =
  now :: int
  select_posts :: "store_clause list \<Rightarrow> SocialMediaPost store_reply"
  describe_trend :: describe

definition getRecentPosts :: "trend_env \<Rightarrow> TimeWindow \<Rightarrow> error + SocialMediaPost list" where
  "getRecentPosts env timeWindow =
     (let startTime = (case timeWindow of
                         Hour \<Rightarrow> now env - 60 * 60 * 1000
                       | Day \<Rightarrow> now env - 24 * 60 * 60 * 1000
                       | Week \<Rightarrow> now env - 7 * 24 * 60 * 60 * 1000)
      in case select_posts env [Gte_instant ''timestamp'' startTime, Order_by ''timestamp'' False] of
           Rejected e \<Rightarrow> Inl e
         | Reply data (Some e) \<Rightarrow> Inl e
         | Reply data None \<Rightarrow> Inr (case data of None \<Rightarrow> [] | Some rows \<Rightarrow> rows))"

text \<open>The loop of \<^verbatim>\<open>identifyTrends\<close> over the entries of the grouping.\<close>

fun analyze_groups :: "describe \<Rightarrow> topic_groups \<Rightarrow> topic_groups \<Rightarrow> Trend list" where
  "analyze_groups describe groups [] = []"
| "analyze_groups describe groups ((t, groupPosts) # entries) =
     (if length groupPosts \<ge> 5
      then (case analyzeTrend describe groups t groupPosts of
              Some trend \<Rightarrow>
                (if isSignificantTrend trend
                 then trend # analyze_groups describe groups entries
                 else analyze_groups describe groups entries)
            | None \<Rightarrow> analyze_groups describe groups entries)
      else analyze_groups describe groups entries)"

text \<open>\<^verbatim>\<open>trends.sort((a, b) => b.metrics.velocity - a.metrics.velocity)\<close>: a stable sort,
  descending in the velocity.\<close>

definition sort_by_velocity :: "Trend list \<Rightarrow> Trend list" where
  "sort_by_velocity trends = sort_key (\<lambda>trend. - velocity (metrics trend)) trends"

definition identifyTrends_try :: "trend_env \<Rightarrow> TimeWindow \<Rightarrow> error + Trend list" where
  "identifyTrends_try env timeWindow =
     (case getRecentPosts env timeWindow of
        Inl e \<Rightarrow> Inl e
      | Inr posts \<Rightarrow>
          (case groupPostsByTopic posts of
             Inl e \<Rightarrow> Inl e
           | Inr topicGroups \<Rightarrow>
               Inr (sort_by_velocity
                     (analyze_groups (describe_trend env) topicGroups
                        (Object_entries topicGroups)))))"

definition identifyTrends :: "trend_env \<Rightarrow> TimeWindow \<Rightarrow> Trend list" where
  "identifyTrends env timeWindow =
     (case identifyTrends_try env timeWindow of Inl e \<Rightarrow> [] | Inr trends \<Rightarrow> trends)"

section \<open>Properties of the trend aggregator\<close>

subsection \<open>Sentiment distribution\<close>

text \<open>The number of posts of a group that carry a given label.\<close>

definition label_count :: "SentimentScore \<Rightarrow> SocialMediaPost list \<Rightarrow> nat" where
  "label_count l posts = length (filter (\<lambda>post. label (sentiment post) = l) posts)"

lemma count_labels_eq:
  "count_labels (a, b, c) posts =
     (a + label_count Positive posts, b + label_count Negative posts,
      c + label_count Neutral posts + label_count Mixed posts)"
  unfolding label_count_def
  by (induction posts arbitrary: a b c) (auto split: SentimentScore.splits)

lemma label_count_total:
  "label_count Positive posts + label_count Negative posts
     + label_count Neutral posts + label_count Mixed posts = length posts"
  unfolding label_count_def
proof (induction posts)
  case Nil
  then show ?case by simp
next
  case (Cons p ps)
  then show ?case by (cases "label (sentiment p)") simp_all
qed

lemma label_count_other:
  "label_count Neutral posts + label_count Mixed posts
     = length (filter (\<lambda>post. label (sentiment post) \<noteq> Positive
                            \<and> label (sentiment post) \<noteq> Negative) posts)"
  unfolding label_count_def
proof (induction posts)
  case Nil
  then show ?case by simp
next
  case (Cons p ps)
  then show ?case by (cases "label (sentiment p)") simp_all
qed

lemma analyzeSentimentDistribution_eq:
  "analyzeSentimentDistribution posts =
     \<lparr>positive = real (label_count Positive posts) / real (length posts),
      negative = real (label_count Negative posts) / real (length posts),
      neutral = real (label_count Neutral posts + label_count Mixed posts) / real (length posts),
      overall = (if label_count Positive posts > label_count Negative posts then Positive
                 else if label_count Negative posts > label_count Positive posts then Negative
                 else Neutral)\<rparr>"
  unfolding analyzeSentimentDistribution_def Let_def
  by (simp add: count_labels_eq add.assoc)

text \<open>Posts and a store to evaluate the services on.\<close>

definition example_post :: "string \<Rightarrow> string list \<Rightarrow> SentimentScore \<Rightarrow> real \<Rightarrow> SocialMediaPost" where
  "example_post ident tags l n =
     \<lparr>post_id = ident, platform = Twitter, content = ''ok'', author = ''ann'',
      authorId = ''1'', timestamp = 0,
      engagement = \<lparr>likes = n, shares = 0, comments = 0, views = None\<rparr>,
      metadata = \<lparr>hashtags = tags, mentions = [], urls = [], language = ''en''\<rparr>,
      sentiment = \<lparr>score = 0, magnitude = 0, label = l,
        emotions = \<lparr>joy = 0, sadness = 0, anger = 0, fear = 0, surprise = 0, disgust = 0\<rparr>,
        confidence = 0.5\<rparr>,
      viralityScore = 0, createdAt = 0, updatedAt = 0\<rparr>"

text \<open>
  C7. For every non-empty group the three fractions of the distribution add up to 1;
  the positive and the negative fraction are the numbers of posts so labelled over the
  size of the group, the neutral fraction is the number of the remaining posts (labelled
  neutral or mixed) over the size, and the overall label is the majority between the
  positive and the negative count.
\<close>

theorem distribution_sums_to_one:
  assumes "posts \<noteq> []"
  shows "positive (analyzeSentimentDistribution posts)
           + negative (analyzeSentimentDistribution posts)
           + neutral (analyzeSentimentDistribution posts) = 1
    \<and> positive (analyzeSentimentDistribution posts)
        = real (label_count Positive posts) / real (length posts)
    \<and> negative (analyzeSentimentDistribution posts)
        = real (label_count Negative posts) / real (length posts)
    \<and> neutral (analyzeSentimentDistribution posts)
        = real (label_count Neutral posts + label_count Mixed posts) / real (length posts)
    \<and> overall (analyzeSentimentDistribution posts)
        = (if label_count Positive posts > label_count Negative posts then Positive
           else if label_count Negative posts > label_count Positive posts then Negative
           else Neutral)"
proof -
  let ?n = "real (length posts)"
  have n: "?n \<noteq> 0" using assms by simp
  have "real (label_count Positive posts) + real (label_count Negative posts)
         + real (label_count Neutral posts + label_count Mixed posts) = ?n"
    using label_count_total [of posts] by (simp only: of_nat_add [symmetric] add.assoc)
  then have "real (label_count Positive posts) / ?n + real (label_count Negative posts) / ?n
         + real (label_count Neutral posts + label_count Mixed posts) / ?n = 1"
    using n by (simp only: add_divide_distrib [symmetric]) simp
  then show ?thesis by (simp only: analyzeSentimentDistribution_eq TrendSentiment.simps)
qed

theorem distribution_sums_to_one_witness:
  "[example_post ''a'' [] Positive 1, example_post ''b'' [] Mixed 1] \<noteq> []
   \<and> positive (analyzeSentimentDistribution
        [example_post ''a'' [] Positive 1, example_post ''b'' [] Mixed 1])
     + negative (analyzeSentimentDistribution
        [example_post ''a'' [] Positive 1, example_post ''b'' [] Mixed 1])
     + neutral (analyzeSentimentDistribution
        [example_post ''a'' [] Positive 1, example_post ''b'' [] Mixed 1]) = 1
   \<and> positive (analyzeSentimentDistribution
        [example_post ''a'' [] Positive 1, example_post ''b'' [] Mixed 1]) = 1 / 2
   \<and> neutral (analyzeSentimentDistribution
        [example_post ''a'' [] Positive 1, example_post ''b'' [] Mixed 1]) = 1 / 2
   \<and> overall (analyzeSentimentDistribution
        [example_post ''a'' [] Positive 1, example_post ''b'' [] Mixed 1]) = Positive"
  using distribution_sums_to_one
    [of "[example_post ''a'' [] Positive 1, example_post ''b'' [] Mixed 1]"]
  by (simp add: label_count_def example_post_def)

text \<open>
  C9. Every post whose label is neither positive nor negative, a post labelled mixed
  included, counts in the neutral fraction; and when the positive and the negative counts
  are equal the overall label is neutral, whether or not any post is labelled neutral.
\<close>

theorem neutral_is_the_default_bucket:
  "(posts \<noteq> [] \<longrightarrow>
      neutral (analyzeSentimentDistribution posts)
        = real (length (filter (\<lambda>post. label (sentiment post) \<noteq> Positive
                                       \<and> label (sentiment post) \<noteq> Negative) posts))
          / real (length posts)
      \<and> real (label_count Mixed posts) / real (length posts)
          \<le> neutral (analyzeSentimentDistribution posts))
   \<and> (label_count Positive posts = label_count Negative posts
        \<longrightarrow> overall (analyzeSentimentDistribution posts) = Neutral)"
proof -
  have "real (label_count Mixed posts) / real (length posts)
          \<le> real (label_count Neutral posts + label_count Mixed posts) / real (length posts)"
    by (rule divide_right_mono) simp_all
  then show ?thesis
    by (simp add: analyzeSentimentDistribution_eq label_count_other del: of_nat_add)
qed

theorem neutral_is_the_default_bucket_witness:
  "neutral (analyzeSentimentDistribution
      [example_post ''a'' [] Positive 1, example_post ''b'' [] Negative 1,
       example_post ''c'' [] Mixed 1]) = 1 / 3
   \<and> overall (analyzeSentimentDistribution
      [example_post ''a'' [] Positive 1, example_post ''b'' [] Negative 1,
       example_post ''c'' [] Mixed 1]) = Neutral
   \<and> label_count Neutral
      [example_post ''a'' [] Positive 1, example_post ''b'' [] Negative 1,
       example_post ''c'' [] Mixed 1] = 0"
  using neutral_is_the_default_bucket
    [of "[example_post ''a'' [] Positive 1, example_post ''b'' [] Negative 1,
          example_post ''c'' [] Mixed 1]"]
  by (simp add: label_count_def example_post_def)

subsection \<open>The two gates of \<^verbatim>\<open>identifyTrends\<close>\<close>

lemma push_to_group_keys:
  "map fst (push_to_group groups t post)
     = (if t \<in> set (map fst groups) then map fst groups else map fst groups @ [t])"
  by (induction groups t post rule: push_to_group.induct) auto

lemma push_to_group_distinct:
  "distinct (map fst groups) \<Longrightarrow> distinct (map fst (push_to_group groups t post))"
  by (simp add: push_to_group_keys)

lemma group_by_topics_distinct:
  "group_by_topics groups post ts = Inr groups' \<Longrightarrow> distinct (map fst groups)
     \<Longrightarrow> distinct (map fst groups')"
proof (induction ts arbitrary: groups)
  case Nil
  then show ?case by simp
next
  case (Cons t ts)
  then show ?case
    by (auto split: if_splits intro: push_to_group_distinct)
qed

lemma group_posts_distinct:
  "group_posts groups posts = Inr groups' \<Longrightarrow> distinct (map fst groups)
     \<Longrightarrow> distinct (map fst groups')"
proof (induction posts arbitrary: groups)
  case Nil
  then show ?case by simp
next
  case (Cons post posts)
  then show ?case
    by (auto split: sum.splits dest: group_by_topics_distinct)
qed

lemma groupPostsByTopic_distinct:
  "groupPostsByTopic posts = Inr groups \<Longrightarrow> distinct (map fst groups)"
  unfolding groupPostsByTopic_def using group_posts_distinct [of "[]" posts groups] by simp

lemma set_Object_entries: "set (Object_entries groups) = set groups"
  unfolding Object_entries_def by auto

lemma analyzeTrend_Some:
  assumes "analyzeTrend describe groups t posts = Some trend"
  shows "topic trend = t \<and> calculateTrendMetrics posts = Inr (metrics trend)
         \<and> trend_sentiment trend = analyzeSentimentDistribution posts"
  using assms unfolding analyzeTrend_def Let_def
  by (auto split: sum.splits)

lemma analyze_groups_member:
  "trend \<in> set (analyze_groups describe groups entries) \<Longrightarrow>
     \<exists>posts. (topic trend, posts) \<in> set entries \<and> 5 \<le> length posts
       \<and> analyzeTrend describe groups (topic trend) posts = Some trend
       \<and> isSignificantTrend trend"
proof (induction entries)
  case Nil
  then show ?case by simp
next
  case (Cons entry entries)
  obtain t groupPosts where entry: "entry = (t, groupPosts)" by (cases entry)
  show ?case
  proof (cases "trend \<in> set (analyze_groups describe groups entries)")
    case True
    with Cons.IH show ?thesis by auto
  next
    case False
    with Cons.prems entry
    have "5 \<le> length groupPosts \<and> analyzeTrend describe groups t groupPosts = Some trend
          \<and> isSignificantTrend trend"
      by (auto split: if_splits option.splits)
    moreover from this have "topic trend = t" using analyzeTrend_Some by blast
    ultimately show ?thesis using entry by auto
  qed
qed

lemma identifyTrends_set:
  assumes "getRecentPosts env w = Inr posts" and "groupPostsByTopic posts = Inr groups"
  shows "set (identifyTrends env w)
     = set (analyze_groups (describe_trend env) groups (Object_entries groups))"
  using assms by (simp add: identifyTrends_def identifyTrends_try_def sort_by_velocity_def)

lemma identifyTrends_nonempty:
  assumes "identifyTrends env w \<noteq> []"
  shows "\<exists>posts groups. getRecentPosts env w = Inr posts \<and> groupPostsByTopic posts = Inr groups"
  using assms unfolding identifyTrends_def identifyTrends_try_def
  by (auto split: sum.splits)

lemma identifyTrends_member:
  assumes "trend \<in> set (identifyTrends env w)"
  shows "\<exists>posts groups groupPosts.
           getRecentPosts env w = Inr posts \<and> groupPostsByTopic posts = Inr groups
           \<and> (topic trend, groupPosts) \<in> set groups \<and> 5 \<le> length groupPosts
           \<and> calculateTrendMetrics groupPosts = Inr (metrics trend)
           \<and> isSignificantTrend trend"
proof -
  from assms have "identifyTrends env w \<noteq> []" by auto
  then obtain posts groups where
    pg: "getRecentPosts env w = Inr posts" "groupPostsByTopic posts = Inr groups"
    using identifyTrends_nonempty by blast
  with assms have "trend \<in> set (analyze_groups (describe_trend env) groups (Object_entries groups))"
    by (simp add: identifyTrends_set)
  then obtain groupPosts where
    "(topic trend, groupPosts) \<in> set (Object_entries groups)" "5 \<le> length groupPosts"
    "analyzeTrend (describe_trend env) groups (topic trend) groupPosts = Some trend"
    "isSignificantTrend trend"
    using analyze_groups_member by blast
  then show ?thesis using pg analyzeTrend_Some set_Object_entries by blast
qed

lemma identifyTrends_group_unique:
  assumes "trend \<in> set (identifyTrends env w)"
    and "getRecentPosts env w = Inr posts" and "groupPostsByTopic posts = Inr groups"
    and "(topic trend, groupPosts) \<in> set groups"
  shows "5 \<le> length groupPosts \<and> calculateTrendMetrics groupPosts = Inr (metrics trend)
         \<and> isSignificantTrend trend"
proof -
  obtain ps where ps: "(topic trend, ps) \<in> set groups" "5 \<le> length ps"
      "calculateTrendMetrics ps = Inr (metrics trend)" "isSignificantTrend trend"
    using identifyTrends_member [OF assms(1)] assms(2,3) by auto
  have "distinct (map fst groups)" using assms(3) by (rule groupPostsByTopic_distinct)
  then have "ps = groupPosts" using ps(1) assms(4) by (rule eq_key_imp_eq_value)
  with ps show ?thesis by simp
qed

text \<open>
  C3. Every trend that \<^verbatim>\<open>identifyTrends\<close> returns comes from a topic group of at least
  five posts, carries the metrics of that group, and these satisfy mentions \<ge> 10,
  velocity \<ge> 100 and growth rate \<ge> 2. A group of fewer than five posts, so one of
  exactly four, gives no trend; and a group of five or more posts gives no trend when one
  of the three conditions fails for its metrics.
\<close>

theorem identifyTrends_gates:
  "(\<forall>trend \<in> set (identifyTrends env w).
      \<exists>posts groups groupPosts.
        getRecentPosts env w = Inr posts \<and> groupPostsByTopic posts = Inr groups
        \<and> (topic trend, groupPosts) \<in> set groups \<and> 5 \<le> length groupPosts
        \<and> calculateTrendMetrics groupPosts = Inr (metrics trend)
        \<and> trend_mentions (metrics trend) \<ge> 10
        \<and> velocity (metrics trend) \<ge> 100
        \<and> growthRate (metrics trend) \<ge> 2)
   \<and> (\<forall>posts groups t groupPosts.
        getRecentPosts env w = Inr posts \<and> groupPostsByTopic posts = Inr groups
        \<and> (t, groupPosts) \<in> set groups \<and> length groupPosts < 5
        \<longrightarrow> t \<notin> set (map topic (identifyTrends env w)))
   \<and> (\<forall>posts groups t groupPosts m.
        getRecentPosts env w = Inr posts \<and> groupPostsByTopic posts = Inr groups
        \<and> (t, groupPosts) \<in> set groups \<and> 5 \<le> length groupPosts
        \<and> calculateTrendMetrics groupPosts = Inr m
        \<and> (trend_mentions m < 10 \<or> velocity m < 100 \<or> growthRate m < 2)
        \<longrightarrow> t \<notin> set (map topic (identifyTrends env w)))"
proof (intro conjI ballI allI impI)
  fix trend
  assume "trend \<in> set (identifyTrends env w)"
  then show "\<exists>posts groups groupPosts.
        getRecentPosts env w = Inr posts \<and> groupPostsByTopic posts = Inr groups
        \<and> (topic trend, groupPosts) \<in> set groups \<and> 5 \<le> length groupPosts
        \<and> calculateTrendMetrics groupPosts = Inr (metrics trend)
        \<and> trend_mentions (metrics trend) \<ge> 10
        \<and> velocity (metrics trend) \<ge> 100
        \<and> growthRate (metrics trend) \<ge> 2"
    using identifyTrends_member [of trend env w] unfolding isSignificantTrend_def by blast
next
  fix posts groups t groupPosts
  assume a: "getRecentPosts env w = Inr posts \<and> groupPostsByTopic posts = Inr groups
        \<and> (t, groupPosts) \<in> set groups \<and> length groupPosts < 5"
  show "t \<notin> set (map topic (identifyTrends env w))"
  proof
    assume "t \<in> set (map topic (identifyTrends env w))"
    then obtain trend where tr: "trend \<in> set (identifyTrends env w)" "topic trend = t" by auto
    with a have "5 \<le> length groupPosts"
      using identifyTrends_group_unique [of trend env w posts groups groupPosts] by simp
    with a show False by simp
  qed
next
  fix posts groups t groupPosts m
  assume a: "getRecentPosts env w = Inr posts \<and> groupPostsByTopic posts = Inr groups
        \<and> (t, groupPosts) \<in> set groups \<and> 5 \<le> length groupPosts
        \<and> calculateTrendMetrics groupPosts = Inr m
        \<and> (trend_mentions m < 10 \<or> velocity m < 100 \<or> growthRate m < 2)"
  show "t \<notin> set (map topic (identifyTrends env w))"
  proof
    assume "t \<in> set (map topic (identifyTrends env w))"
    then obtain trend where tr: "trend \<in> set (identifyTrends env w)" "topic trend = t" by auto
    with a have "calculateTrendMetrics groupPosts = Inr (metrics trend) \<and> isSignificantTrend trend"
      using identifyTrends_group_unique [of trend env w posts groups groupPosts] by simp
    with a have "metrics trend = m" and "isSignificantTrend trend" by simp_all
    with a show False unfolding isSignificantTrend_def by auto
  qed
qed

text \<open>A store of ten posts tagged #AI, four tagged #cat and six tagged #dog.\<close>

definition example_details :: TrendDetails where
  "example_details =
     \<lparr>trend_id = ''trend'', trend_platform = Twitter, category = Memes, relatedTopics = [],
      influencers = [], timeline = [], viralityFactors = [], trend_createdAt = 0,
      trend_updatedAt = 0\<rparr>"

definition example_posts :: "SocialMediaPost list" where
  "example_posts =
     replicate 10 (example_post ''a'' [''#AI''] Positive 20)
     @ replicate 4 (example_post ''c'' [''#cat''] Neutral 500)
     @ replicate 6 (example_post ''d'' [''#dog''] Neutral 500)"

definition example_trend_env :: trend_env where
  "example_trend_env =
     \<lparr>now = 0,
      select_posts = (\<lambda>clauses. Reply (Some example_posts) None),
      describe_trend = (\<lambda>groups t posts. Inr example_details)\<rparr>"

theorem identifyTrends_gates_witness:
  "map topic (identifyTrends example_trend_env Day) = [''#ai'']
   \<and> list_all (\<lambda>trend. trend_mentions (metrics trend) \<ge> 10 \<and> velocity (metrics trend) \<ge> 100
                  \<and> growthRate (metrics trend) \<ge> 2)
       (identifyTrends example_trend_env Day)
   \<and> groupPostsByTopic example_posts
       = Inr [(''#ai'', replicate 10 (example_post ''a'' [''#AI''] Positive 20)),
              (''#cat'', replicate 4 (example_post ''c'' [''#cat''] Neutral 500)),
              (''#dog'', replicate 6 (example_post ''d'' [''#dog''] Neutral 500))]
   \<and> ''#cat'' \<notin> set (map topic (identifyTrends example_trend_env Day))
   \<and> ''#dog'' \<notin> set (map topic (identifyTrends example_trend_env Day))"
proof -
  let ?groups = "[(''#ai'', replicate 10 (example_post ''a'' [''#AI''] Positive 20)),
                  (''#cat'', replicate 4 (example_post ''c'' [''#cat''] Neutral 500)),
                  (''#dog'', replicate 6 (example_post ''d'' [''#dog''] Neutral 500))]"
  have fetch: "getRecentPosts example_trend_env Day = Inr example_posts"
    by (simp add: getRecentPosts_def example_trend_env_def)
  have groups: "groupPostsByTopic example_posts = Inr ?groups"
    by code_simp
  have out: "map topic (identifyTrends example_trend_env Day) = [''#ai'']"
    by code_simp
  have dog: "calculateTrendMetrics (replicate 6 (example_post ''d'' [''#dog''] Neutral 500))
      = Inr \<lparr>trend_mentions = 6, trend_engagement = 3000, reach = 0, growthRate = 6,
              velocity = 3000\<rparr>"
    by code_simp
  note gates = identifyTrends_gates [of example_trend_env Day]
  from gates have significant:
    "list_all (\<lambda>trend. trend_mentions (metrics trend) \<ge> 10 \<and> velocity (metrics trend) \<ge> 100
                  \<and> growthRate (metrics trend) \<ge> 2)
       (identifyTrends example_trend_env Day)"
    unfolding list_all_iff by blast
  from gates have small:
    "getRecentPosts example_trend_env Day = Inr example_posts
       \<and> groupPostsByTopic example_posts = Inr ?groups
       \<and> (''#cat'', replicate 4 (example_post ''c'' [''#cat''] Neutral 500)) \<in> set ?groups
       \<and> length (replicate 4 (example_post ''c'' [''#cat''] Neutral 500)) < 5
     \<longrightarrow> ''#cat'' \<notin> set (map topic (identifyTrends example_trend_env Day))"
    by blast
  from gates have insignificant:
    "getRecentPosts example_trend_env Day = Inr example_posts
       \<and> groupPostsByTopic example_posts = Inr ?groups
       \<and> (''#dog'', replicate 6 (example_post ''d'' [''#dog''] Neutral 500)) \<in> set ?groups
       \<and> 5 \<le> length (replicate 6 (example_post ''d'' [''#dog''] Neutral 500))
       \<and> calculateTrendMetrics (replicate 6 (example_post ''d'' [''#dog''] Neutral 500))
           = Inr \<lparr>trend_mentions = 6, trend_engagement = 3000, reach = 0, growthRate = 6,
                   velocity = 3000\<rparr>
       \<and> (trend_mentions \<lparr>trend_mentions = 6, trend_engagement = 3000, reach = 0,
                            growthRate = 6, velocity = 3000\<rparr> < 10
           \<or> velocity \<lparr>trend_mentions = 6, trend_engagement = 3000, reach = 0,
                         growthRate = 6, velocity = 3000\<rparr> < 100
           \<or> growthRate \<lparr>trend_mentions = 6, trend_engagement = 3000, reach = 0,
                           growthRate = 6, velocity = 3000\<rparr> < 2)
     \<longrightarrow> ''#dog'' \<notin> set (map topic (identifyTrends example_trend_env Day))"
    by blast
  have cat: "''#cat'' \<notin> set (map topic (identifyTrends example_trend_env Day))"
    using small fetch groups by simp
  have dog': "''#dog'' \<notin> set (map topic (identifyTrends example_trend_env Day))"
    using insignificant fetch groups dog by simp
  show ?thesis using out significant groups cat dog' by simp
qed

section \<open>Retrieval and the RAG service\<close>

subsection \<open>Records\<close>

text \<open>Of a \<^verbatim>\<open>CulturalContext\<close> the members that the service reads and its
  \<^verbatim>\<open>historicalContext\<close>; the demographic and geographic tables are left out.\<close>

record CulturalContext =
  context_id :: string
  context_topic :: string
  context_description :: string
  context_relevance :: real
  relatedEvents :: "string list"
  historicalContext :: string

datatype RAGSource =
  Post_source SocialMediaPost | Trend_source Trend | Context_source CulturalContext

record RAGResult =
  result_id :: string
  result_content :: string
  source :: RAGSource
  relevance :: real
  result_confidence :: real
  summary :: string
  keyInsights :: "string list"
  relatedContent :: "string list"

record QueryFilters =
  platforms :: "SocialPlatform list option"
  dateRange :: "(int \<times> int) option"
  sentiments :: "SentimentScore list option"
  categories :: "TrendCategory list option"
  minEngagement :: "real option"
  languages :: "string list option"

record QueryMetadata =
  meta_searchTime :: int
  meta_totalResults :: nat
  meta_filters :: QueryFilters

record RAGQuery =
  query_id :: string
  query_text :: string
  query_results :: "RAGResult list"
  query_metadata :: QueryMetadata
  query_createdAt :: int

text \<open>The object \<^verbatim>\<open>{}\<close> as a \<^verbatim>\<open>QueryFilters\<close>.\<close>

definition no_filters :: QueryFilters where
  "no_filters =
     \<lparr>platforms = None, dateRange = None, sentiments = None, categories = None,
      minEngagement = None, languages = None\<rparr>"

subsection \<open>Collaborators and effects\<close>

text \<open>
  The three tables read, the insertion into \<^verbatim>\<open>rag_queries\<close>, \<^verbatim>\<open>fetch\<close> (given the
  URL and the prompt and model of the body), the conversion of a number to a string in a
  template literal, and the clock: \<open>Date_now env k\<close> is its reading number \<open>k\<close> during
  a call. The response of the proxy is taken at the declared type of
  \<^verbatim>\<open>RAGQuery.results\<close>.
\<close>

record http_response =
  ok :: bool
  json :: "error + RAGResult list"

record rag_env =
  posts_table :: "store_clause list \<Rightarrow> SocialMediaPost store_reply"
  trends_table :: "store_clause list \<Rightarrow> Trend store_reply"
  contexts_table :: "store_clause list \<Rightarrow> CulturalContext store_reply"
  rag_queries_insert :: "RAGQuery \<Rightarrow> unit store_reply"
  fetch :: "string \<Rightarrow> string \<times> string \<Rightarrow> error + http_response"
  Number_toString :: "real \<Rightarrow> string"
  Date_now :: "nat \<Rightarrow> int"

text \<open>What a call writes: a line on \<^verbatim>\<open>console.error\<close>, a row handed to the store.\<close>

datatype effect = Console_error string error | Store_insert RAGQuery

subsection \<open>Relevance, summary and insights\<close>

text \<open>\<^verbatim>\<open>calculateRelevance\<close>, with its loop over the words of the query.\<close>

definition calculateRelevance :: "string \<Rightarrow> string \<Rightarrow> real" where
  "calculateRelevance query candidate =
     (let queryWords = split_whitespace (toLowerCase query);
          contentWords = split_whitespace (toLowerCase candidate);
          matches =
            foldl (\<lambda>matches queryWord.
                     if list_ex (\<lambda>word. str_includes word queryWord \<or> str_includes queryWord word)
                          contentWords
                     then matches + 1 else matches)
              (0::nat) queryWords
      in real matches / real (length queryWords))"

definition trim :: "string \<Rightarrow> string" where
  "trim s = rev (dropWhile is_space (rev (dropWhile is_space s)))"

fun join :: "string \<Rightarrow> string list \<Rightarrow> string" where
  "join separator [] = []"
| "join separator [x] = x"
| "join separator (x # y # ys) = x @ separator @ join separator (y # ys)"

definition generateSummary :: "string \<Rightarrow> string" where
  "generateSummary s =
     (let sentences = filter (\<lambda>sentence. length (trim sentence) > 0)
                        (split_runs (\<lambda>c. c \<in> set ''.!?'') s)
      in join ''. '' (take 2 sentences) @ ''.'')"

definition extractKeyInsights :: "SocialMediaPost \<Rightarrow> string list" where
  "extractKeyInsights post =
     (let insights0 = [];
          insights1 = (if viralityScore post > 0.7
                       then insights0 @ [''High virality potential''] else insights0);
          insights2 = (if label (sentiment post) = Positive \<and> score (sentiment post) > 0.5
                       then insights1 @ [''Strong positive sentiment''] else insights1);
          insights3 = (if length (hashtags (metadata post)) > 3
                       then insights2 @ [''Multiple trending hashtags''] else insights2);
          totalEngagement = likes (engagement post) + shares (engagement post)
                            + comments (engagement post);
          insights4 = (if totalEngagement > 1000
                       then insights3 @ [''High engagement rate''] else insights3)
      in insights4)"

definition extractTrendInsights :: "rag_env \<Rightarrow> Trend \<Rightarrow> string list" where
  "extractTrendInsights env trend =
     (let insights0 = [];
          insights1 = (if growthRate (metrics trend) > 10
                       then insights0 @ [''Rapid growth trend''] else insights0);
          insights2 = (if velocity (metrics trend) > 500
                       then insights1 @ [''High engagement velocity''] else insights1);
          insights3 = (if overall (trend_sentiment trend) = Positive
                          \<and> positive (trend_sentiment trend) > 0.6
                       then insights2 @ [''Predominantly positive sentiment''] else insights2);
          insights4 = (if length (viralityFactors (details trend)) > 0
                       then insights3
                            @ [Number_toString env (real (length (viralityFactors (details trend))))
                               @ '' virality factors identified'']
                       else insights3)
      in insights4)"

definition extractContextInsights :: "rag_env \<Rightarrow> CulturalContext \<Rightarrow> string list" where
  "extractContextInsights env context =
     (let insights0 = [];
          insights1 = (if context_relevance context > 0.8
                       then insights0 @ [''Highly relevant cultural context''] else insights0);
          insights2 = (if length (relatedEvents context) > 0
                       then insights1
                            @ [Number_toString env (real (length (relatedEvents context)))
                               @ '' related events'']
                       else insights1)
      in insights2)"

subsection \<open>The three searches\<close>

text \<open>
  Each search chains its clauses, awaits the reply, logs an \<^verbatim>\<open>error\<close> member and then
  returns no rows, and returns \<^verbatim>\<open>data || []\<close> otherwise. A rejected call propagates.
\<close>

definition rows_or_none :: "'row store_reply \<Rightarrow> string \<Rightarrow> (error + 'row list) \<times> effect list" where
  "rows_or_none reply message =
     (case reply of
        Rejected e \<Rightarrow> (Inl e, [])
      | Reply data (Some e) \<Rightarrow> (Inr [], [Console_error message e])
      | Reply data None \<Rightarrow> (Inr (case data of None \<Rightarrow> [] | Some rows \<Rightarrow> rows), []))"

definition searchPosts ::
  "rag_env \<Rightarrow> string \<Rightarrow> QueryFilters option \<Rightarrow> (error + SocialMediaPost list) \<times> effect list" where
  "searchPosts env query filters =
     (let q0 = [Or_filter (''content.ilike.%'' @ query @ ''%,metadata->hashtags.cs.{''
                           @ query @ ''}'')];
          q1 = (case filters of
                  Some f \<Rightarrow>
                    (case platforms f of
                       Some ps \<Rightarrow> if length ps > 0 then q0 @ [In_platforms ps] else q0
                     | None \<Rightarrow> q0)
                | None \<Rightarrow> q0);
          q2 = (case filters of
                  Some f \<Rightarrow>
                    (case dateRange f of
                       Some (start, finish) \<Rightarrow>
                         q1 @ [Gte_instant ''timestamp'' start, Lte_instant ''timestamp'' finish]
                     | None \<Rightarrow> q1)
                | None \<Rightarrow> q1);
          q3 = (case filters of
                  Some f \<Rightarrow>
                    (case minEngagement f of
                       Some n \<Rightarrow> if n \<noteq> 0 then q2 @ [Gte_number ''engagement->likes'' n] else q2
                     | None \<Rightarrow> q2)
                | None \<Rightarrow> q2)
      in rows_or_none (posts_table env (q3 @ [Limit 20])) ''Error searching posts:'')"

definition searchTrends ::
  "rag_env \<Rightarrow> string \<Rightarrow> QueryFilters option \<Rightarrow> (error + Trend list) \<times> effect list" where
  "searchTrends env query filters =
     (let q0 = [Or_filter (''topic.ilike.%'' @ query @ ''%,related_topics.cs.{'' @ query @ ''}'')];
          q1 = (case filters of
                  Some f \<Rightarrow>
                    (case categories f of
                       Some cs \<Rightarrow> if length cs > 0 then q0 @ [In_categories cs] else q0
                     | None \<Rightarrow> q0)
                | None \<Rightarrow> q0)
      in rows_or_none (trends_table env (q1 @ [Limit 10])) ''Error searching trends:'')"

definition searchCulturalContext ::
  "rag_env \<Rightarrow> string \<Rightarrow> QueryFilters option \<Rightarrow> (error + CulturalContext list) \<times> effect list" where
  "searchCulturalContext env query filters =
     rows_or_none
       (contexts_table env
          [Or_filter (''topic.ilike.%'' @ query @ ''%,description.ilike.%'' @ query @ ''%''),
           Limit 5])
       ''Error searching cultural context:''"

subsection \<open>Retrieval\<close>

definition post_result :: "string \<Rightarrow> SocialMediaPost \<Rightarrow> RAGResult" where
  "post_result query post =
     \<lparr>result_id = ''post_'' @ post_id post,
      result_content = content post,
      source = Post_source post,
      relevance = calculateRelevance query (content post),
      result_confidence = 0.8,
      summary = generateSummary (content post),
      keyInsights = extractKeyInsights post,
      relatedContent = hashtags (metadata post)\<rparr>"

definition trend_result :: "rag_env \<Rightarrow> string \<Rightarrow> Trend \<Rightarrow> RAGResult" where
  "trend_result env query trend =
     \<lparr>result_id = ''trend_'' @ trend_id (details trend),
      result_content = topic trend @ '': ''
        @ Number_toString env (trend_mentions (metrics trend)) @ '' mentions, ''
        @ Number_toString env (trend_engagement (metrics trend)) @ '' engagement'',
      source = Trend_source trend,
      relevance = calculateRelevance query (topic trend),
      result_confidence = 0.9,
      summary = ''Trending topic '' @ [CHR 0x22] @ topic trend @ [CHR 0x22] @ '' with ''
        @ Number_toString env (trend_mentions (metrics trend)) @ '' mentions'',
      keyInsights = extractTrendInsights env trend,
      relatedContent = relatedTopics (details trend)\<rparr>"

definition context_result :: "rag_env \<Rightarrow> string \<Rightarrow> CulturalContext \<Rightarrow> RAGResult" where
  "context_result env query context =
     \<lparr>result_id = ''context_'' @ context_id context,
      result_content = context_description context,
      source = Context_source context,
      relevance = calculateRelevance query (context_description context),
      result_confidence = 0.85,
      summary = context_description context,
      keyInsights = extractContextInsights env context,
      relatedContent = relatedEvents context\<rparr>"

text \<open>\<^verbatim>\<open>retrieveContent\<close> up to its last statement: the array \<^verbatim>\<open>results\<close> after the
  three loops.\<close>

definition retrieve_candidates ::
  "rag_env \<Rightarrow> string \<Rightarrow> QueryFilters option \<Rightarrow> (error + RAGResult list) \<times> effect list" where
  "retrieve_candidates env query filters =
     (case searchPosts env query filters of
        (Inl e, fx1) \<Rightarrow> (Inl e, fx1)
      | (Inr posts, fx1) \<Rightarrow>
          (case searchTrends env query filters of
             (Inl e, fx2) \<Rightarrow> (Inl e, fx1 @ fx2)
           | (Inr trends, fx2) \<Rightarrow>
               (case searchCulturalContext env query filters of
                  (Inl e, fx3) \<Rightarrow> (Inl e, fx1 @ fx2 @ fx3)
                | (Inr contexts, fx3) \<Rightarrow>
                    (Inr (map (post_result query) posts
                          @ map (trend_result env query) trends
                          @ map (context_result env query) contexts),
                     fx1 @ fx2 @ fx3))))"

text \<open>\<^verbatim>\<open>results.sort((a, b) => b.relevance - a.relevance).slice(0, 10)\<close>; the sort is
  stable.\<close>

definition retrieveContent ::
  "rag_env \<Rightarrow> string \<Rightarrow> QueryFilters option \<Rightarrow> (error + RAGResult list) \<times> effect list" where
  "retrieveContent env query filters =
     (case retrieve_candidates env query filters of
        (Inl e, fx) \<Rightarrow> (Inl e, fx)
      | (Inr results, fx) \<Rightarrow> (Inr (take 10 (sort_key (\<lambda>result. - relevance result) results)), fx))"

subsection \<open>The query\<close>

text \<open>\<^verbatim>\<open>fetchHuggingFace\<close> of the proxy utility, and \<^verbatim>\<open>generateInsights\<close>, which calls it
  with the query and the default model.\<close>

definition fetchHuggingFace :: "rag_env \<Rightarrow> string \<Rightarrow> string \<Rightarrow> error + RAGResult list" where
  "fetchHuggingFace env prompt model =
     (case fetch env ''http://localhost:3001/huggingface'' (prompt, model) of
        Inl e \<Rightarrow> Inl e
      | Inr response \<Rightarrow>
          if \<not> ok response then Inl (ProxyError ''Hugging Face proxy error'')
          else json response)"

definition generateInsights :: "rag_env \<Rightarrow> string \<Rightarrow> RAGResult list \<Rightarrow> error + RAGResult list" where
  "generateInsights env query results = fetchHuggingFace env query ''gpt2''"

text \<open>\<^verbatim>\<open>RAGService.query\<close>: the \<^verbatim>\<open>catch\<close> logs the error and throws it again.\<close>

definition query ::
  "rag_env \<Rightarrow> string \<Rightarrow> QueryFilters option \<Rightarrow> (error + RAGQuery) \<times> effect list" where
  "query env q filters =
     (let startTime = Date_now env 0 in
      case retrieveContent env q filters of
        (Inl e, fx) \<Rightarrow> (Inl e, fx @ [Console_error ''Error in RAG query:'' e])
      | (Inr results, fx) \<Rightarrow>
          (case generateInsights env q results of
             Inl e \<Rightarrow> (Inl e, fx @ [Console_error ''Error in RAG query:'' e])
           | Inr enhancedResults \<Rightarrow>
               (let searchTime = Date_now env 1 - startTime in
                (Inr \<lparr>query_id = ''query_'' @ Number_toString env (real_of_int (Date_now env 2)),
                      query_text = q,
                      query_results = enhancedResults,
                      query_metadata =
                        \<lparr>meta_searchTime = searchTime,
                         meta_totalResults = length enhancedResults,
                         meta_filters = (case filters of None \<Rightarrow> no_filters | Some f \<Rightarrow> f)\<rparr>,
                      query_createdAt = Date_now env 3\<rparr>,
                 fx))))"

text \<open>\<^verbatim>\<open>RAGService.saveQuery\<close>: the insertion inside a \<^verbatim>\<open>try\<close>; an \<^verbatim>\<open>error\<close> member
  and a thrown error are both logged.\<close>

definition saveQuery :: "rag_env \<Rightarrow> RAGQuery \<Rightarrow> (error + unit) \<times> effect list" where
  "saveQuery env ragQuery =
     (case rag_queries_insert env ragQuery of
        Rejected e \<Rightarrow> (Inr (), [Store_insert ragQuery, Console_error ''Error saving RAG query:'' e])
      | Reply data (Some e) \<Rightarrow>
          (Inr (), [Store_insert ragQuery, Console_error ''Error saving RAG query:'' e])
      | Reply data None \<Rightarrow> (Inr (), [Store_insert ragQuery]))"

section \<open>Properties of retrieval and of the RAG service\<close>

subsection \<open>Relevance\<close>

lemma starts_with_iff: "starts_with s t \<longleftrightarrow> (\<exists>suffix. s = t @ suffix)"
  by (induction s t rule: starts_with.induct) auto

lemma str_includes_iff: "str_includes s t \<longleftrightarrow> (\<exists>before after. s = before @ t @ after)"
proof (induction s)
  case Nil
  then show ?case by auto
next
  case (Cons d s)
  show ?case
  proof
    assume "str_includes (d # s) t"
    then consider "starts_with (d # s) t" | "str_includes s t" by auto
    then show "\<exists>before after. d # s = before @ t @ after"
    proof cases
      case 1
      then obtain suffix where "d # s = t @ suffix" using starts_with_iff by blast
      then have "d # s = [] @ t @ suffix" by simp
      then show ?thesis by blast
    next
      case 2
      then obtain before after where "s = before @ t @ after" using Cons.IH by blast
      then have "d # s = (d # before) @ t @ after" by simp
      then show ?thesis by blast
    qed
  next
    assume "\<exists>before after. d # s = before @ t @ after"
    then obtain before after where e: "d # s = before @ t @ after" by blast
    show "str_includes (d # s) t"
    proof (cases before)
      case Nil
      with e have "starts_with (d # s) t" using starts_with_iff by auto
      then show ?thesis by simp
    next
      case (Cons b bs)
      with e have "s = bs @ t @ after" by simp
      then have "str_includes s t" using Cons.IH by blast
      then show ?thesis by simp
    qed
  qed
qed

lemma count_loop:
  "foldl (\<lambda>matches x. if P x then matches + 1 else matches) (k::nat) xs
     = k + length (filter P xs)"
  by (induction xs arbitrary: k) simp_all

lemma split_runs_not_Nil: "split_runs sep s \<noteq> []"
  by (subst split_runs.simps) (simp add: Let_def)

lemma split_runs_Nil: "split_runs sep [] = [[]]"
  by (subst split_runs.simps) simp

text \<open>
  C5. For every query and candidate text the relevance is the number of the lower-case,
  whitespace-split words of the query that some lower-case word of the candidate contains
  or is contained in, over the number of words of the query; it lies in [0,1].
\<close>

theorem calculateRelevance_fraction:
  "calculateRelevance q candidate
     = real (length (filter
         (\<lambda>w. \<exists>word \<in> set (split_whitespace (toLowerCase candidate)).
                 (\<exists>before after. word = before @ w @ after)
                 \<or> (\<exists>before after. w = before @ word @ after))
         (split_whitespace (toLowerCase q))))
       / real (length (split_whitespace (toLowerCase q)))
   \<and> 0 \<le> calculateRelevance q candidate
   \<and> calculateRelevance q candidate \<le> 1"
proof -
  let ?qs = "split_whitespace (toLowerCase q)"
  let ?cs = "split_whitespace (toLowerCase candidate)"
  let ?P = "\<lambda>w. list_ex (\<lambda>word. str_includes word w \<or> str_includes w word) ?cs"
  have eq: "calculateRelevance q candidate
      = real (length (filter ?P ?qs)) / real (length ?qs)"
    unfolding calculateRelevance_def Let_def by (simp add: count_loop)
  have P: "?P = (\<lambda>w. \<exists>word \<in> set ?cs.
                 (\<exists>before after. word = before @ w @ after)
                 \<or> (\<exists>before after. w = before @ word @ after))"
    by (simp add: list_ex_iff str_includes_iff)
  have "length (filter ?P ?qs) \<le> length ?qs" by (rule length_filter_le)
  then have "real (length (filter ?P ?qs)) \<le> real (length ?qs)" by simp
  moreover have "0 < real (length ?qs)"
    using split_runs_not_Nil [of is_space "toLowerCase q"]
    by (simp add: split_whitespace_def)
  ultimately have le: "real (length (filter ?P ?qs)) / real (length ?qs) \<le> 1"
    by (simp add: divide_le_eq_1)
  have ge: "0 \<le> real (length (filter ?P ?qs)) / real (length ?qs)" by simp
  show ?thesis using eq le ge unfolding P by simp
qed

lemma str_includes_empty: "str_includes s []"
  by (cases s) simp_all

lemma calculateRelevance_empty: "calculateRelevance [] candidate = 1"
proof -
  obtain w ws where ws: "split_whitespace (toLowerCase candidate) = w # ws"
    using split_runs_not_Nil [of is_space "toLowerCase candidate"]
    by (cases "split_whitespace (toLowerCase candidate)") (auto simp: split_whitespace_def)
  show ?thesis
    unfolding calculateRelevance_def Let_def
    by (simp add: toLowerCase_def split_whitespace_def split_runs_Nil ws [unfolded toLowerCase_def split_whitespace_def] str_includes_empty)
qed

lemma candidates_relevance_empty:
  assumes "retrieve_candidates env [] filters = (Inr candidates, fx)"
  shows "list_all (\<lambda>result. relevance result = 1) candidates"
  using assms unfolding retrieve_candidates_def
  by (auto split: prod.splits sum.splits
      simp: list_all_iff post_result_def trend_result_def context_result_def
        calculateRelevance_empty)

lemma sort_key_constant:
  assumes "list_all (\<lambda>x. f x = c) xs"
  shows "sort_key f xs = xs"
proof -
  have "map f xs = replicate (length xs) c"
    using assms by (induction xs) simp_all
  then have "sorted (map f xs)" by simp
  then show ?thesis by (rule sort_key_id_if_sorted)
qed

text \<open>
  C10. For the empty query the relevance of every candidate text is 1: the query splits
  into one empty word, which every word contains. So every result retrieved for the
  empty query has relevance 1, and the results are the first ten candidates in the order
  of retrieval.
\<close>

theorem empty_query_ties:
  "calculateRelevance [] candidate = 1
   \<and> (\<forall>results fx.
        retrieveContent env [] filters = (Inr results, fx) \<longrightarrow>
          list_all (\<lambda>result. relevance result = 1) results
          \<and> (\<exists>candidates. retrieve_candidates env [] filters = (Inr candidates, fx)
                \<and> results = take 10 candidates))"
proof (intro conjI allI impI)
  show "calculateRelevance [] candidate = 1" by (rule calculateRelevance_empty)
next
  fix results fx
  assume r: "retrieveContent env [] filters = (Inr results, fx)"
  then obtain candidates where
    c: "retrieve_candidates env [] filters = (Inr candidates, fx)"
    and s: "results = take 10 (sort_key (\<lambda>result. - relevance result) candidates)"
    unfolding retrieveContent_def by (auto split: prod.splits sum.splits)
  have all: "list_all (\<lambda>result. relevance result = 1) candidates"
    using c by (rule candidates_relevance_empty)
  then have "list_all (\<lambda>result. - relevance result = - 1) candidates"
    by (simp add: list_all_iff)
  then have "sort_key (\<lambda>result. - relevance result) candidates = candidates"
    by (rule sort_key_constant)
  with s have t: "results = take 10 candidates" by simp
  from all t show "list_all (\<lambda>result. relevance result = 1) results"
    by (auto simp: list_all_iff dest: in_set_takeD)
  from c t show "\<exists>candidates. retrieve_candidates env [] filters = (Inr candidates, fx)
                \<and> results = take 10 candidates" by blast
qed

subsection \<open>The query and its persistence\<close>

text \<open>A store of twelve matching posts and no trends or contexts, a proxy that answers
  with an empty array, and a table \<^verbatim>\<open>rag_queries\<close> that refuses the insertion.\<close>

definition example_rag_env :: rag_env where
  "example_rag_env =
     \<lparr>posts_table =
        (\<lambda>clauses. Reply (Some (map (\<lambda>ident. example_post ident [''#AI''] Positive 20)
           [''p01'', ''p02'', ''p03'', ''p04'', ''p05'', ''p06'', ''p07'', ''p08'', ''p09'',
            ''p10'', ''p11'', ''p12''])) None),
      trends_table = (\<lambda>clauses. Reply (Some []) None),
      contexts_table = (\<lambda>clauses. Reply None None),
      rag_queries_insert = (\<lambda>ragQuery. Reply None (Some (StoreError ''unavailable''))),
      fetch = (\<lambda>url body. Inr \<lparr>ok = True, json = Inr []\<rparr>),
      Number_toString = (\<lambda>n. ''1002''),
      Date_now = (\<lambda>k. 1000 + int k)\<rparr>"

text \<open>
  C4, as stated, fails. For the query "ok" the ranked retrieval set holds ten results, yet
  the \<^verbatim>\<open>results\<close> of the record that \<^verbatim>\<open>query\<close> returns are the answer of the proxy,
  here empty; and \<^verbatim>\<open>query\<close> hands nothing to the store.
\<close>

theorem query_results_counterexample:
  "fst (retrieveContent example_rag_env ''ok'' None)
     = Inr (map (\<lambda>ident. post_result ''ok'' (example_post ident [''#AI''] Positive 20))
          [''p01'', ''p02'', ''p03'', ''p04'', ''p05'', ''p06'', ''p07'', ''p08'', ''p09'',
            ''p10''])
   \<and> map_sum id query_results (fst (query example_rag_env ''ok'' None)) = Inr []
   \<and> snd (query example_rag_env ''ok'' None) = []"
  by code_simp

lemma rows_or_none_no_insert:
  "rows_or_none reply message = (r, fx) \<Longrightarrow> Store_insert ragQuery \<notin> set fx"
  unfolding rows_or_none_def
  by (auto split: store_reply.splits option.splits)

lemma retrieve_candidates_no_insert:
  assumes "retrieve_candidates env q filters = (r, fx)"
  shows "Store_insert ragQuery \<notin> set fx"
proof -
  obtain r1 fx1 where 1: "searchPosts env q filters = (r1, fx1)" by (cases "searchPosts env q filters")
  obtain r2 fx2 where 2: "searchTrends env q filters = (r2, fx2)" by (cases "searchTrends env q filters")
  obtain r3 fx3 where 3: "searchCulturalContext env q filters = (r3, fx3)"
    by (cases "searchCulturalContext env q filters")
  have n1: "Store_insert ragQuery \<notin> set fx1"
    using 1 unfolding searchPosts_def Let_def by (rule rows_or_none_no_insert)
  have n2: "Store_insert ragQuery \<notin> set fx2"
    using 2 unfolding searchTrends_def Let_def by (rule rows_or_none_no_insert)
  have n3: "Store_insert ragQuery \<notin> set fx3"
    using 3 unfolding searchCulturalContext_def by (rule rows_or_none_no_insert)
  have "set fx \<subseteq> set fx1 \<union> set fx2 \<union> set fx3"
    using assms 1 2 3 unfolding retrieve_candidates_def
    by (auto split: sum.splits)
  with n1 n2 n3 show ?thesis by blast
qed

lemma retrieveContent_no_insert:
  assumes "retrieveContent env q filters = (r, fx)"
  shows "Store_insert ragQuery \<notin> set fx"
proof -
  obtain r' where "retrieve_candidates env q filters = (r', fx)"
    using assms unfolding retrieveContent_def by (auto split: prod.splits sum.splits)
  then show ?thesis by (rule retrieve_candidates_no_insert)
qed

lemma query_Inr:
  assumes "query env q filters = (Inr ragQuery, fx)"
  shows "\<exists>results response.
           retrieveContent env q filters = (Inr results, fx)
           \<and> generateInsights env q results = Inr response
           \<and> ragQuery = \<lparr>query_id = ''query_'' @ Number_toString env (real_of_int (Date_now env 2)),
                      query_text = q,
                      query_results = response,
                      query_metadata =
                        \<lparr>meta_searchTime = Date_now env 1 - Date_now env 0,
                         meta_totalResults = length response,
                         meta_filters = (case filters of None \<Rightarrow> no_filters | Some f \<Rightarrow> f)\<rparr>,
                      query_createdAt = Date_now env 3\<rparr>"
  using assms unfolding query_def Let_def
  by (auto split: prod.splits sum.splits)

lemma query_Inl:
  assumes "query env q filters = (Inl e, fx)"
  shows "\<exists>fx'. fx = fx' @ [Console_error ''Error in RAG query:'' e]"
  using assms unfolding query_def Let_def
  by (auto split: prod.splits sum.splits)

lemma query_succeeds:
  assumes "retrieveContent env q filters = (Inr results, fx)"
    and "fetchHuggingFace env q ''gpt2'' = Inr response"
  shows "\<exists>ragQuery. query env q filters = (Inr ragQuery, fx)"
  using assms unfolding query_def Let_def generateInsights_def by simp

text \<open>The same store with a proxy that answers with an error status, and with a table of
  trends whose query rejects.\<close>

definition example_failing_proxy_env :: rag_env where
  "example_failing_proxy_env =
     example_rag_env\<lparr>fetch := (\<lambda>url body. Inr \<lparr>ok = False, json = Inr []\<rparr>)\<rparr>"

definition example_failing_store_env :: rag_env where
  "example_failing_store_env =
     example_rag_env\<lparr>trends_table := (\<lambda>clauses. Rejected (StoreError ''unreachable''))\<rparr>"

text \<open>
  C4, amended. When \<^verbatim>\<open>query\<close> returns a record, the record carries the query text and
  its metadata hold the elapsed search time, the number of entries of its results and the
  applied filters (none when none are given); \<^verbatim>\<open>query\<close> returns a record whenever the
  retrieval and the proxy succeed. When the retrieval fails, or the retrieval succeeds
  and the proxy fails (the call rejects, or the response is not ok), \<^verbatim>\<open>query\<close> logs the
  error after the lines of the retrieval and throws it again. It
  never hands a row to the store: persisting is the separate \<^verbatim>\<open>saveQuery\<close>, which always
  completes, hands the record to the store, and logs a failure of the store instead of
  raising it.
\<close>

theorem query_record_and_saveQuery:
  "(\<forall>ragQuery fx. query env q filters = (Inr ragQuery, fx) \<longrightarrow>
       query_text ragQuery = q
       \<and> meta_searchTime (query_metadata ragQuery) = Date_now env 1 - Date_now env 0
       \<and> meta_totalResults (query_metadata ragQuery) = length (query_results ragQuery)
       \<and> meta_filters (query_metadata ragQuery)
           = (case filters of None \<Rightarrow> no_filters | Some f \<Rightarrow> f)
       \<and> (\<forall>row. Store_insert row \<notin> set fx))
   \<and> (\<forall>e fx. query env q filters = (Inl e, fx) \<longrightarrow>
        (\<exists>fx'. fx = fx' @ [Console_error ''Error in RAG query:'' e])
        \<and> (\<forall>row. Store_insert row \<notin> set fx))
   \<and> (\<forall>results fx response.
        retrieveContent env q filters = (Inr results, fx)
        \<and> fetchHuggingFace env q ''gpt2'' = Inr response
        \<longrightarrow> (\<exists>ragQuery. query env q filters = (Inr ragQuery, fx)))
   \<and> (\<forall>e fx.
        retrieveContent env q filters = (Inl e, fx)
        \<longrightarrow> query env q filters = (Inl e, fx @ [Console_error ''Error in RAG query:'' e]))
   \<and> (\<forall>results fx e.
        retrieveContent env q filters = (Inr results, fx)
        \<and> fetchHuggingFace env q ''gpt2'' = Inl e
        \<longrightarrow> query env q filters = (Inl e, fx @ [Console_error ''Error in RAG query:'' e]))
   \<and> (\<forall>e. fetch env ''http://localhost:3001/huggingface'' (q, ''gpt2'') = Inl e
        \<longrightarrow> fetchHuggingFace env q ''gpt2'' = Inl e)
   \<and> (\<forall>response.
        fetch env ''http://localhost:3001/huggingface'' (q, ''gpt2'') = Inr response
        \<and> \<not> ok response
        \<longrightarrow> fetchHuggingFace env q ''gpt2'' = Inl (ProxyError ''Hugging Face proxy error''))
   \<and> (\<forall>ragQuery. \<exists>fx.
        saveQuery env ragQuery = (Inr (), fx)
        \<and> hd fx = Store_insert ragQuery
        \<and> (\<forall>e. rag_queries_insert env ragQuery = Rejected e
                 \<or> (\<exists>data. rag_queries_insert env ragQuery = Reply data (Some e))
               \<longrightarrow> fx = [Store_insert ragQuery, Console_error ''Error saving RAG query:'' e]))"
proof (intro conjI allI impI)
  fix answer fx
  assume a: "query env q filters = (Inr answer, fx)"
  then obtain results response where
    r: "retrieveContent env q filters = (Inr results, fx)"
    and rec: "answer = \<lparr>query_id = ''query_'' @ Number_toString env (real_of_int (Date_now env 2)),
                      query_text = q,
                      query_results = response,
                      query_metadata =
                        \<lparr>meta_searchTime = Date_now env 1 - Date_now env 0,
                         meta_totalResults = length response,
                         meta_filters = (case filters of None \<Rightarrow> no_filters | Some f \<Rightarrow> f)\<rparr>,
                      query_createdAt = Date_now env 3\<rparr>"
    using query_Inr by blast
  show "query_text answer = q" by (simp add: rec)
  show "meta_searchTime (query_metadata answer) = Date_now env 1 - Date_now env 0"
    by (simp add: rec)
  show "meta_totalResults (query_metadata answer) = length (query_results answer)"
    by (simp add: rec)
  show "meta_filters (query_metadata answer)
           = (case filters of None \<Rightarrow> no_filters | Some f \<Rightarrow> f)"
    by (simp add: rec)
  fix row
  show "Store_insert row \<notin> set fx" using r by (rule retrieveContent_no_insert)
next
  fix e fx
  assume a: "query env q filters = (Inl e, fx)"
  then show "\<exists>fx'. fx = fx' @ [Console_error ''Error in RAG query:'' e]" by (rule query_Inl)
  fix row
  obtain r0 fx0 where r: "retrieveContent env q filters = (r0, fx0)"
    by (cases "retrieveContent env q filters")
  then have "Store_insert row \<notin> set fx0" by (rule retrieveContent_no_insert)
  moreover have "fx = fx0 @ [Console_error ''Error in RAG query:'' e]"
    using a r unfolding query_def Let_def by (auto split: sum.splits)
  ultimately show "Store_insert row \<notin> set fx" by simp
next
  fix results fx response
  assume "retrieveContent env q filters = (Inr results, fx)
        \<and> fetchHuggingFace env q ''gpt2'' = Inr response"
  then show "\<exists>answer. query env q filters = (Inr answer, fx)"
    using query_succeeds by blast
next
  fix e fx
  assume "retrieveContent env q filters = (Inl e, fx)"
  then show "query env q filters = (Inl e, fx @ [Console_error ''Error in RAG query:'' e])"
    unfolding query_def Let_def by simp
next
  fix results fx e
  assume "retrieveContent env q filters = (Inr results, fx)
        \<and> fetchHuggingFace env q ''gpt2'' = Inl e"
  then show "query env q filters = (Inl e, fx @ [Console_error ''Error in RAG query:'' e])"
    unfolding query_def Let_def generateInsights_def by simp
next
  fix e
  assume "fetch env ''http://localhost:3001/huggingface'' (q, ''gpt2'') = Inl e"
  then show "fetchHuggingFace env q ''gpt2'' = Inl e"
    unfolding fetchHuggingFace_def by simp
next
  fix response
  assume "fetch env ''http://localhost:3001/huggingface'' (q, ''gpt2'') = Inr response
        \<and> \<not> ok response"
  then show "fetchHuggingFace env q ''gpt2'' = Inl (ProxyError ''Hugging Face proxy error'')"
    unfolding fetchHuggingFace_def by simp
next
  fix answer
  show "\<exists>fx. saveQuery env answer = (Inr (), fx)
        \<and> hd fx = Store_insert answer
        \<and> (\<forall>e. rag_queries_insert env answer = Rejected e
                 \<or> (\<exists>data. rag_queries_insert env answer = Reply data (Some e))
               \<longrightarrow> fx = [Store_insert answer, Console_error ''Error saving RAG query:'' e])"
    unfolding saveQuery_def by (auto split: store_reply.splits option.splits)
qed

theorem query_record_and_saveQuery_witness:
  "query example_rag_env ''ok'' None
     = (Inr \<lparr>query_id = ''query_1002'', query_text = ''ok'', query_results = [],
             query_metadata = \<lparr>meta_searchTime = 1, meta_totalResults = 0,
                                meta_filters = no_filters\<rparr>,
             query_createdAt = 1003\<rparr>, [])
   \<and> meta_searchTime (query_metadata
        \<lparr>query_id = ''query_1002'', query_text = ''ok'', query_results = [],
             query_metadata = \<lparr>meta_searchTime = 1, meta_totalResults = 0,
                                meta_filters = no_filters\<rparr>,
             query_createdAt = 1003\<rparr>)
       = Date_now example_rag_env 1 - Date_now example_rag_env 0
   \<and> saveQuery example_rag_env
        \<lparr>query_id = ''query_1002'', query_text = ''ok'', query_results = [],
             query_metadata = \<lparr>meta_searchTime = 1, meta_totalResults = 0,
                                meta_filters = no_filters\<rparr>,
             query_createdAt = 1003\<rparr>
       = (Inr (),
          [Store_insert \<lparr>query_id = ''query_1002'', query_text = ''ok'', query_results = [],
             query_metadata = \<lparr>meta_searchTime = 1, meta_totalResults = 0,
                                meta_filters = no_filters\<rparr>,
             query_createdAt = 1003\<rparr>,
           Console_error ''Error saving RAG query:'' (StoreError ''unavailable'')])
   \<and> query example_failing_proxy_env ''ok'' None
       = (Inl (ProxyError ''Hugging Face proxy error''),
          [Console_error ''Error in RAG query:'' (ProxyError ''Hugging Face proxy error'')])
   \<and> query example_failing_store_env ''ok'' None
       = (Inl (StoreError ''unreachable''),
          [Console_error ''Error in RAG query:'' (StoreError ''unreachable'')])"
proof -
  have proxy_retrieval:
    "retrieveContent example_failing_proxy_env ''ok'' None
       = (Inr (map (\<lambda>ident. post_result ''ok'' (example_post ident [''#AI''] Positive 20))
            [''p01'', ''p02'', ''p03'', ''p04'', ''p05'', ''p06'', ''p07'', ''p08'', ''p09'',
             ''p10'']), [])"
    by code_simp
  have proxy_fetch:
    "fetch example_failing_proxy_env ''http://localhost:3001/huggingface'' (''ok'', ''gpt2'')
       = Inr \<lparr>ok = False, json = Inr []\<rparr>
     \<and> \<not> ok \<lparr>ok = False, json = Inr []\<rparr>"
    by (simp add: example_failing_proxy_env_def)
  note failing = query_record_and_saveQuery [of example_failing_proxy_env "''ok''" None]
  from failing proxy_fetch
  have "fetchHuggingFace example_failing_proxy_env ''ok'' ''gpt2''
      = Inl (ProxyError ''Hugging Face proxy error'')"
    by blast
  with failing proxy_retrieval
  have proxy: "query example_failing_proxy_env ''ok'' None
       = (Inl (ProxyError ''Hugging Face proxy error''),
          [] @ [Console_error ''Error in RAG query:'' (ProxyError ''Hugging Face proxy error'')])"
    by blast
  have store_retrieval:
    "retrieveContent example_failing_store_env ''ok'' None = (Inl (StoreError ''unreachable''), [])"
    by code_simp
  from query_record_and_saveQuery [of example_failing_store_env "''ok''" None] store_retrieval
  have store: "query example_failing_store_env ''ok'' None
       = (Inl (StoreError ''unreachable''),
          [] @ [Console_error ''Error in RAG query:'' (StoreError ''unreachable'')])"
    by blast
  let ?ragQuery ="\<lparr>query_id = ''query_1002'', query_text = ''ok'', query_results = [],
             query_metadata = \<lparr>meta_searchTime = 1, meta_totalResults = 0,
                                meta_filters = no_filters\<rparr>,
             query_createdAt = 1003\<rparr>"
  have q: "query example_rag_env ''ok'' None = (Inr ?ragQuery, [])"
    by code_simp
  have ins: "rag_queries_insert example_rag_env ?ragQuery
      = Reply None (Some (StoreError ''unavailable''))"
    by (simp add: example_rag_env_def)
  note th = query_record_and_saveQuery [of example_rag_env "''ok''" None]
  from th q have time: "meta_searchTime (query_metadata ?ragQuery)
       = Date_now example_rag_env 1 - Date_now example_rag_env 0"
    by blast
  from th obtain fx where fx: "saveQuery example_rag_env ?ragQuery = (Inr (), fx)"
    and failed: "\<forall>e. rag_queries_insert example_rag_env ?ragQuery = Rejected e
                 \<or> (\<exists>data. rag_queries_insert example_rag_env ?ragQuery = Reply data (Some e))
               \<longrightarrow> fx = [Store_insert ?ragQuery, Console_error ''Error saving RAG query:'' e]"
    by blast
  from failed ins have "fx = [Store_insert ?ragQuery,
      Console_error ''Error saving RAG query:'' (StoreError ''unavailable'')]"
    by blast
  with fx q time proxy store show ?thesis by simp
qed

text \<open>The empty query on the example store: the first ten of the twelve posts.\<close>

theorem empty_query_ties_witness:
  "retrieveContent example_rag_env [] None
     = (Inr (map (\<lambda>ident. post_result [] (example_post ident [''#AI''] Positive 20))
          [''p01'', ''p02'', ''p03'', ''p04'', ''p05'', ''p06'', ''p07'', ''p08'', ''p09'',
            ''p10'']), [])
   \<and> list_all (\<lambda>result. relevance result = 1)
        (map (\<lambda>ident. post_result [] (example_post ident [''#AI''] Positive 20))
          [''p01'', ''p02'', ''p03'', ''p04'', ''p05'', ''p06'', ''p07'', ''p08'', ''p09'',
            ''p10''])"
proof -
  have r: "retrieveContent example_rag_env [] None
     = (Inr (map (\<lambda>ident. post_result [] (example_post ident [''#AI''] Positive 20))
          [''p01'', ''p02'', ''p03'', ''p04'', ''p05'', ''p06'', ''p07'', ''p08'', ''p09'',
            ''p10'']), [])"
    by code_simp
  from empty_query_ties [of "''ok''" example_rag_env None] r
  have "list_all (\<lambda>result. relevance result = 1)
        (map (\<lambda>ident. post_result [] (example_post ident [''#AI''] Positive 20))
          [''p01'', ''p02'', ''p03'', ''p04'', ''p05'', ''p06'', ''p07'', ''p08'', ''p09'',
            ''p10''])"
    by blast
  with r show ?thesis by simp
qed

end
